theory Spec2Isabelle
  imports Main
begin

section \<open>The host document\<close>

text \<open>
  The widgets of this repository hold almost no state of their own: what is open, what is
  hidden and what is wired to what lives in attributes of elements of the host document.
  The document is therefore part of the state.  A node is an element's identity; the
  elements of the document are listed in document order, and each one carries the
  attributes, the inline style and the listeners that the code reads and writes.
\<close>

type_synonym node = nat
type_synonym iref = nat

datatype 'a outcome = Done 'a | Threw 'a

fun world_of :: "'a outcome \<Rightarrow> 'a" where
  "world_of (Done w) = w"
| "world_of (Threw w) = w"

fun threw :: "'a outcome \<Rightarrow> bool" where
  "threw (Done w) = False"
| "threw (Threw w) = True"

text \<open>
  Functions that the code hands to \<^verbatim>\<open>addEventListener\<close>.  Two listeners are the same
  listener exactly when they are the same function object: a method bound in a
  constructor is one object per instance, a prototype method is one object for the whole
  class, and \<^verbatim>\<open>f.bind(this)\<close> or an arrow function evaluated inside a call is a new
  object every time (it carries the number of the allocation that made it).
\<close>

datatype listener =
    AccHandleButtonClick iref
  | AccHandleButtonFocus iref
  | AccHandleButtonBlur iref
  | AccHandleKeydown iref
  | AccProtoHandleKeydown
  | TogHandleClick iref
  | TogHandleBlur iref
  | TogOnClick nat
  | TogOnClickBound nat iref nat
  | TogEscClosure nat node

record dom_element =
  el_id :: "string option"
  data_id :: "string option"
  classList :: "string list"
  aria_controls :: "string option"
  aria_expanded :: "string option"
  aria_labelledby :: "string option"
  aria_hidden :: "string option"
  style_display :: "string option"
  sheet_display :: string
  focusable :: bool
  parentNode :: "node option"
  listeners :: "(string \<times> listener) list"

text \<open>
  \<^verbatim>\<open>addEventListener\<close> ignores a listener that is already registered for the same
  event type; \<^verbatim>\<open>removeEventListener\<close> removes it if it is there.
\<close>

definition addEventListener :: "'a \<Rightarrow> 'a list \<Rightarrow> 'a list" where
  "addEventListener l ls = (if l \<in> set ls then ls else ls @ [l])"

definition removeEventListener :: "'a \<Rightarrow> 'a list \<Rightarrow> 'a list" where
  "removeEventListener l ls = filter (\<lambda>x. x \<noteq> l) ls"

subsection \<open>Numbers in template literals\<close>

text \<open>
  \<^verbatim>\<open>`${i}`\<close> writes the number \<open>i\<close> in decimal.
\<close>

definition digit_char :: "nat \<Rightarrow> char" where
  "digit_char d = ''0123456789'' ! d"

function show_nat :: "nat \<Rightarrow> string" where
  "show_nat n = (if n < 10 then [digit_char n] else show_nat (n div 10) @ [digit_char (n mod 10)])"
  by pat_completeness auto
termination
  by (relation "measure id") auto

declare show_nat.simps [simp del]

lemma digit_char_inj: "a < 10 \<Longrightarrow> b < 10 \<Longrightarrow> digit_char a = digit_char b \<Longrightarrow> a = b"
  unfolding digit_char_def by (subst (asm) nth_eq_iff_index_eq) simp_all

lemma show_nat_not_Nil: "show_nat n \<noteq> []" "[] \<noteq> show_nat n"
  by (subst show_nat.simps, simp)+

lemma show_nat_inj: "show_nat n = show_nat m \<Longrightarrow> n = m"
proof (induction n arbitrary: m rule: show_nat.induct)
  case (1 n)
  show ?case
  proof (cases "n < 10")
    case small_n: True
    show ?thesis
    proof (cases "m < 10")
      case True
      with small_n "1.prems" show ?thesis
        by (simp add: show_nat.simps [of n] show_nat.simps [of m] digit_char_inj)
    next
      case False
      with small_n "1.prems" show ?thesis
        by (simp add: show_nat.simps [of n] show_nat.simps [of m] show_nat_not_Nil)
    qed
  next
    case big_n: False
    show ?thesis
    proof (cases "m < 10")
      case True
      with big_n "1.prems" show ?thesis
        by (simp add: show_nat.simps [of n] show_nat.simps [of m] show_nat_not_Nil)
    next
      case False
      with big_n "1.prems" have eq: "show_nat (n div 10) = show_nat (m div 10)"
        and d: "digit_char (n mod 10) = digit_char (m mod 10)"
        by (simp_all add: show_nat.simps [of n] show_nat.simps [of m])
      from "1.IH" [OF big_n eq] have "n div 10 = m div 10" .
      moreover from d have "n mod 10 = m mod 10"
        by (auto dest: digit_char_inj [rotated 2])
      ultimately show ?thesis
        by (metis div_mult_mod_eq)
    qed
  qed
qed

subsection \<open>Strings\<close>

text \<open>
  What the code asks of the media query's text: \<^verbatim>\<open>/\d+/g.test(s)\<close> (is there a digit),
  \<^verbatim>\<open>s.match(/\d+/g)[0]\<close> (the first run of digits), \<^verbatim>\<open>parseInt\<close> of such a run, and
  \<^verbatim>\<open>s.includes(t)\<close>.
\<close>

definition is_digit :: "char \<Rightarrow> bool" where
  "is_digit c = (c \<in> set ''0123456789'')"

definition has_digits :: "string \<Rightarrow> bool" where
  "has_digits s = list_ex is_digit s"

definition first_digits :: "string \<Rightarrow> string" where
  "first_digits s = takeWhile is_digit (dropWhile (\<lambda>c. \<not> is_digit c) s)"

definition parseInt :: "string \<Rightarrow> nat" where
  "parseInt ds = foldl (\<lambda>a c. 10 * a + (of_char c - 48)) 0 ds"

fun starts_with :: "string \<Rightarrow> string \<Rightarrow> bool" where
  "starts_with s [] = True"
| "starts_with [] (c # t) = False"
| "starts_with (d # s) (c # t) = (d = c \<and> starts_with s t)"

fun str_includes :: "string \<Rightarrow> string \<Rightarrow> bool" where
  "str_includes [] t = (t = [])"
| "str_includes (d # s) t = (starts_with (d # s) t \<or> str_includes s t)"

subsection \<open>Widget instances\<close>

text \<open>
  A \<^verbatim>\<open>MediaQueryList\<close> belongs to the browser: its \<^verbatim>\<open>media\<close> is the query's text and
  its \<^verbatim>\<open>matches\<close> is the browser's verdict at the current viewport, here a function of
  \<^verbatim>\<open>window.innerWidth\<close>.  A callback option records whether a function was
  configured; what a configured callback does is the caller's business, and the model
  records each invocation in the world's list of calls.
\<close>

record mediaQueryList =
  media :: string
  matches_at :: "nat \<Rightarrow> bool"

datatype reach = Above | Below

record acc_options =
  allowMultiple :: bool
  closedDefault :: bool
  forceExpand :: bool
  hasAnimation :: bool
  mediaQuery :: "mediaQueryList option"
  onInit :: bool
  onReachBreakpoint :: bool
  onOpen :: bool
  onClose :: bool
  panelSelector :: string
  prefixId :: string
  triggerSelector :: string

record accordion =
  element :: node
  options :: acc_options
  active :: bool
  activePanel :: "node option"
  focus :: bool
  hasReachBreakpoint :: "reach option"

record tog_settings =
  bodyScrollLock :: bool
  bodyScrollLockMediaQuery :: "mediaQueryList option"
  closeOnBlur :: bool
  closeOnEscPress :: bool
  tg_hasAnimation :: bool
  isOpened :: bool
  tg_mediaQuery :: "mediaQueryList option"
  onClick :: "nat option"
  tg_prefixId :: string
  target_selector :: "string option"

record toggle =
  tg_element :: node
  settings :: tog_settings
  target :: "node option"
  initialized :: bool

datatype call =
    OnInit node
  | OnOpen node
  | OnClose node
  | OnReachBreakpoint bool
  | OnClick nat
  | SlideUp node
  | SlideDown node
  | DisableBodyScroll node
  | EnableBodyScroll node

text \<open>
  Callbacks that run later: the 200 ms timeout of the toggle's blur handler, and the
  completion callbacks handed to the animation port.
\<close>

datatype task =
    BlurClose iref
  | FocusWhenShown node
  | RemoveStyle node

datatype family = AccordionFamily | ToggleFamily

datatype resize_handler = AccHandleResize iref | TogOnResize iref

record world =
  doc_order :: "node list"
  elem :: "node \<Rightarrow> dom_element"
  query :: "node \<Rightarrow> string \<Rightarrow> node list"
  activeElement :: "node option"
  doc_keydown :: "listener list"
  win_keydown :: "listener list"
  innerWidth :: nat
  registry :: "family \<times> node \<Rightarrow> iref option"
  accs :: "iref \<Rightarrow> accordion"
  togs :: "iref \<Rightarrow> toggle"
  next_ref :: nat
  resize_subs :: "resize_handler list"
  calls :: "call list"
  random_src :: "nat \<Rightarrow> string"
  random_calls :: nat
  now :: nat
  timers :: "(nat \<times> task) list"

subsection \<open>Reading and writing the document\<close>

definition upd :: "node \<Rightarrow> (dom_element \<Rightarrow> dom_element) \<Rightarrow> world \<Rightarrow> world" where
  "upd n f w = w\<lparr>elem := (elem w)(n := f (elem w n))\<rparr>"

definition log_call :: "call \<Rightarrow> world \<Rightarrow> world" where
  "log_call c w = w\<lparr>calls := calls w @ [c]\<rparr>"

text \<open>\<^verbatim>\<open>window.setTimeout(f, delay)\<close>: the callback is queued with the time at which it is due.\<close>

definition setTimeout :: "task \<Rightarrow> nat \<Rightarrow> world \<Rightarrow> world" where
  "setTimeout f delay w = w\<lparr>timers := timers w @ [(now w + delay, f)]\<rparr>"

definition set_activeElement :: "node \<Rightarrow> world \<Rightarrow> world" where
  "set_activeElement n w = w\<lparr>activeElement := Some n\<rparr>"

text \<open>
  Modelled from the spec: the animation port \<^verbatim>\<open>DOMAnimations\<close> (its file is not among
  the sources).  The spec says of it that \<^verbatim>\<open>slideDown(element, durationMs, onComplete)\<close>
  and \<^verbatim>\<open>slideUp\<close> are cosmetic and call \<^verbatim>\<open>onComplete\<close> exactly once, after the element
  has settled.  A call to the port is recorded, and a completion callback is queued
  for the end of the 500 ms that the callers pass.  What the port does to the
  element's style is not modelled.
\<close>

definition slideUp :: "node \<Rightarrow> world \<Rightarrow> world" where
  "slideUp n w = log_call (SlideUp n) w"

definition slideDown :: "node \<Rightarrow> task option \<Rightarrow> world \<Rightarrow> world" where
  "slideDown n onComplete w =
     (case onComplete of
        None \<Rightarrow> log_call (SlideDown n) w
      | Some f \<Rightarrow> setTimeout f 500 (log_call (SlideDown n) w))"

text \<open>
  \<^verbatim>\<open>document.getElementById(s)\<close>: the first element of the document, in document order,
  whose id is \<open>s\<close>; no element has the empty id.
\<close>

definition getElementById :: "world \<Rightarrow> string \<Rightarrow> node option" where
  "getElementById w s =
     (if s = [] then None else find (\<lambda>n. el_id (elem w n) = Some s) (doc_order w))"

text \<open>The \<^verbatim>\<open>id\<close> property of an element is the empty string when it has no id.\<close>

definition id_prop :: "dom_element \<Rightarrow> string" where
  "id_prop e = (case el_id e of None \<Rightarrow> [] | Some s \<Rightarrow> s)"

text \<open>
  \<^verbatim>\<open>window.getComputedStyle(n).display\<close>: the inline value when there is one, else what
  the style sheets give.
\<close>

definition display_of :: "dom_element \<Rightarrow> string" where
  "display_of e = (case style_display e of None \<Rightarrow> sheet_display e | Some d \<Rightarrow> d)"

definition computed_display :: "world \<Rightarrow> node \<Rightarrow> string" where
  "computed_display w n = display_of (elem w n)"

text \<open>\<^verbatim>\<open>randomId()\<close> is an import from a module outside these sources: a supply of strings.\<close>

definition randomId :: "world \<Rightarrow> string \<times> world" where
  "randomId w = (random_src w (random_calls w), w\<lparr>random_calls := Suc (random_calls w)\<rparr>)"

text \<open>
  The probing loop of \<^verbatim>\<open>init\<close>:
  \<^verbatim>\<open>while (document.getElementById(`${pre}${i}`)) { i++ }\<close>.
  It stops because the document has finitely many elements and different numbers are
  written differently.
\<close>

function probe :: "world \<Rightarrow> string \<Rightarrow> nat \<Rightarrow> nat" where
  "probe w pre i = (if getElementById w (pre @ show_nat i) \<noteq> None then probe w pre (Suc i) else i)"
  by pat_completeness auto

lemma getElementById_Some: "getElementById w s = Some n \<Longrightarrow> n \<in> set (doc_order w) \<and> el_id (elem w n) = Some s"
  by (auto simp: getElementById_def find_Some_iff split: if_splits)

lemma getElementById_None:
  "getElementById w s = None \<Longrightarrow> n \<in> set (doc_order w) \<Longrightarrow> s \<noteq> [] \<Longrightarrow> el_id (elem w n) \<noteq> Some s"
  by (auto simp: getElementById_def find_None_iff)

lemma taken_finite: "finite {j. getElementById w (pre @ show_nat j) \<noteq> None}"
proof -
  let ?ids = "(\<lambda>n. el_id (elem w n)) ` set (doc_order w)"
  let ?f = "\<lambda>j. Some (pre @ show_nat j)"
  have "inj ?f"
    by (auto simp: inj_on_def dest: show_nat_inj)
  then have "finite (?f -` ?ids)"
    by (intro finite_vimageI) simp_all
  moreover have "{j. getElementById w (pre @ show_nat j) \<noteq> None} \<subseteq> ?f -` ?ids"
    by (force dest: getElementById_Some)
  ultimately show ?thesis
    by (rule rev_finite_subset)
qed

termination probe
proof (relation "measure (\<lambda>(w, pre, i). card {j. i \<le> j \<and> getElementById w (pre @ show_nat j) \<noteq> None})")
  show "wf (measure (\<lambda>(w, pre, i). card {j. i \<le> j \<and> getElementById w (pre @ show_nat j) \<noteq> None}))"
    by simp
next
  fix w :: world and pre :: string and i :: nat
  assume taken: "getElementById w (pre @ show_nat i) \<noteq> None"
  let ?A = "\<lambda>k. {j. k \<le> j \<and> getElementById w (pre @ show_nat j) \<noteq> None}"
  have fin: "finite (?A i)"
    by (rule rev_finite_subset [OF taken_finite [of w pre]]) auto
  have "i \<in> ?A i" and "i \<notin> ?A (Suc i)" and "?A (Suc i) \<subseteq> ?A i"
    using taken by auto
  then have "?A (Suc i) \<subset> ?A i"
    by blast
  with fin have "card (?A (Suc i)) < card (?A i)"
    by (rule psubset_card_mono)
  then show "((w, pre, Suc i), (w, pre, i))
      \<in> measure (\<lambda>(w, pre, i). card {j. i \<le> j \<and> getElementById w (pre @ show_nat j) \<noteq> None})"
    by simp
qed

declare probe.simps [simp del]

lemma probe_free: "getElementById w (pre @ show_nat (probe w pre i)) = None"
  by (induction w pre i rule: probe.induct) (subst probe.simps, simp)

section \<open>Focus\<close>

text \<open>
  The listeners that the widgets register for \<^verbatim>\<open>focus\<close> and \<^verbatim>\<open>blur\<close>:
  \<^verbatim>\<open>Accordion._handleButtonFocus\<close>, \<^verbatim>\<open>Accordion._handleButtonBlur\<close> and
  \<^verbatim>\<open>Toggle.handleBlur\<close>, whose timeout fires 200 ms later.
\<close>

definition acc_handleButtonFocus :: "iref \<Rightarrow> world \<Rightarrow> world" where
  "acc_handleButtonFocus r w = w\<lparr>accs := (accs w)(r := (accs w r)\<lparr>focus := True\<rparr>)\<rparr>"

definition acc_handleButtonBlur :: "iref \<Rightarrow> world \<Rightarrow> world" where
  "acc_handleButtonBlur r w = w\<lparr>accs := (accs w)(r := (accs w r)\<lparr>focus := False\<rparr>)\<rparr>"

definition tog_handleBlur :: "iref \<Rightarrow> world \<Rightarrow> world" where
  "tog_handleBlur r w = setTimeout (BlurClose r) 200 w"

fun on_focus_blur :: "listener \<Rightarrow> world \<Rightarrow> world" where
  "on_focus_blur (AccHandleButtonFocus r) w = acc_handleButtonFocus r w"
| "on_focus_blur (AccHandleButtonBlur r) w = acc_handleButtonBlur r w"
| "on_focus_blur (TogHandleBlur r) w = tog_handleBlur r w"
| "on_focus_blur _ w = w"

definition listeners_for :: "string \<Rightarrow> node \<Rightarrow> world \<Rightarrow> listener list" where
  "listeners_for ev n w = map snd (filter (\<lambda>p. fst p = ev) (listeners (elem w n)))"

definition fire :: "string \<Rightarrow> node \<Rightarrow> world \<Rightarrow> world" where
  "fire ev n w = foldl (\<lambda>v l. on_focus_blur l v) w (listeners_for ev n w)"

text \<open>
  \<^verbatim>\<open>n.focus()\<close>: nothing happens when \<open>n\<close> cannot take focus or has it already; otherwise
  the element that had focus gets a \<^verbatim>\<open>blur\<close> event and \<open>n\<close> a \<^verbatim>\<open>focus\<close> event.
\<close>

definition focus_node :: "node \<Rightarrow> world \<Rightarrow> world" where
  "focus_node n w =
     (if activeElement w = Some n \<or> \<not> focusable (elem w n) then w
      else let w1 = (case activeElement w of None \<Rightarrow> w | Some m \<Rightarrow> fire ''blur'' m w)
           in fire ''focus'' n (set_activeElement n w1))"

section \<open>The instance registry\<close>

text \<open>
  Modelled from the spec: the class \<^verbatim>\<open>AbstractDomElement\<close> (its file is not among the
  sources).  The spec says of it: constructing on a node resolves to the existing
  instance for that node if one exists, ignoring the newly supplied options, and
  otherwise creates a new registry entry; \<^verbatim>\<open>isNewInstance()\<close> tells the subclass which
  of the two happened; \<^verbatim>\<open>getInstance\<close> is a pure lookup; \<^verbatim>\<open>destroy\<close> removes the
  entry and is a no-op on a node without one.  Each widget family is tracked on its own.
\<close>

definition abstract_construct :: "family \<Rightarrow> node \<Rightarrow> world \<Rightarrow> iref \<times> bool \<times> world" where
  "abstract_construct fam el w =
     (case registry w (fam, el) of
        Some r \<Rightarrow> (r, False, w)
      | None \<Rightarrow> (next_ref w, True,
          w\<lparr>registry := (registry w)((fam, el) := Some (next_ref w)), next_ref := Suc (next_ref w)\<rparr>))"

definition getInstance :: "family \<Rightarrow> node \<Rightarrow> world \<Rightarrow> iref option" where
  "getInstance fam el w = registry w (fam, el)"

definition abstract_destroy :: "family \<Rightarrow> node \<Rightarrow> world \<Rightarrow> world" where
  "abstract_destroy fam el w = w\<lparr>registry := (registry w)((fam, el) := None)\<rparr>"

section \<open>Accordion\<close>

subsection \<open>Options\<close>

record acc_overrides =
  set_allowMultiple :: "bool option"
  set_closedDefault :: "bool option"
  set_forceExpand :: "bool option"
  set_hasAnimation :: "bool option"
  set_mediaQuery :: "mediaQueryList option option"
  set_onInit :: "bool option"
  set_onReachBreakpoint :: "bool option"
  set_onOpen :: "bool option"
  set_onClose :: "bool option"
  set_panelSelector :: "string option"
  set_prefixId :: "string option"
  set_triggerSelector :: "string option"

definition no_overrides :: acc_overrides where
  "no_overrides = \<lparr>set_allowMultiple = None, set_closedDefault = None, set_forceExpand = None,
     set_hasAnimation = None, set_mediaQuery = None, set_onInit = None,
     set_onReachBreakpoint = None, set_onOpen = None, set_onClose = None,
     set_panelSelector = None, set_prefixId = None, set_triggerSelector = None\<rparr>"

text \<open>
  \<^verbatim>\<open>Accordion.defaults\<close>.  The default \<^verbatim>\<open>onOpen\<close>, \<^verbatim>\<open>onClose\<close> and
  \<^verbatim>\<open>onReachBreakpoint\<close> are functions that do nothing (so they are configured); there is
  no default \<^verbatim>\<open>onInit\<close>.
\<close>

definition acc_defaults :: acc_options where
  "acc_defaults = \<lparr>allowMultiple = False, closedDefault = False, forceExpand = True,
     hasAnimation = False, mediaQuery = None, onInit = False, onReachBreakpoint = True,
     onOpen = True, onClose = True, panelSelector = ''.accordion__panel'',
     prefixId = ''accordion'', triggerSelector = ''.accordion__trigger''\<rparr>"

definition or_default :: "'a option \<Rightarrow> 'a \<Rightarrow> 'a" where
  "or_default v d = (case v of None \<Rightarrow> d | Some x \<Rightarrow> x)"

text \<open>\<^verbatim>\<open>{ ...Accordion.defaults, ...options }\<close>\<close>

definition merge_options :: "acc_options \<Rightarrow> acc_overrides \<Rightarrow> acc_options" where
  "merge_options d v = \<lparr>
     allowMultiple = or_default (set_allowMultiple v) (allowMultiple d),
     closedDefault = or_default (set_closedDefault v) (closedDefault d),
     forceExpand = or_default (set_forceExpand v) (forceExpand d),
     hasAnimation = or_default (set_hasAnimation v) (hasAnimation d),
     mediaQuery = or_default (set_mediaQuery v) (mediaQuery d),
     onInit = or_default (set_onInit v) (onInit d),
     onReachBreakpoint = or_default (set_onReachBreakpoint v) (onReachBreakpoint d),
     onOpen = or_default (set_onOpen v) (onOpen d),
     onClose = or_default (set_onClose v) (onClose d),
     panelSelector = or_default (set_panelSelector v) (panelSelector d),
     prefixId = or_default (set_prefixId v) (prefixId d),
     triggerSelector = or_default (set_triggerSelector v) (triggerSelector d)\<rparr>"

subsection \<open>Opening and closing a panel\<close>

definition FOCUSABLE_ELEMENTS :: string where
  \<open>FOCUSABLE_ELEMENTS = ''button, [href], input, select, textarea, [tabindex]:not([tabindex="-1"])''\<close>

definition upd_acc :: "iref \<Rightarrow> (accordion \<Rightarrow> accordion) \<Rightarrow> world \<Rightarrow> world" where
  "upd_acc r f w = w\<lparr>accs := (accs w)(r := f (accs w r))\<rparr>"

text \<open>
  \<^verbatim>\<open>open(panel)\<close> and \<^verbatim>\<open>close(panel)\<close>.  The completion callback that \<^verbatim>\<open>open\<close> hands
  to \<^verbatim>\<open>slideDown\<close> focuses the panel's first focusable descendant, if there is one.
\<close>

fun acc_open :: "iref \<Rightarrow> node option \<Rightarrow> world \<Rightarrow> world" where
  "acc_open r None w = w"
| "acc_open r (Some panel) w0 =
     (let w = upd_acc r (\<lambda>a. a\<lparr>activePanel := Some panel\<rparr>) w0;
          firstFocusableElement =
            (case query w panel FOCUSABLE_ELEMENTS of [] \<Rightarrow> None | f # _ \<Rightarrow> Some f)
      in if hasAnimation (options (accs w r)) \<and> computed_display w panel = ''none''
         then slideDown panel (map_option FocusWhenShown firstFocusableElement) w
         else let w1 = upd panel (\<lambda>e. e\<lparr>style_display := Some ''block''\<rparr>) w
              in (case firstFocusableElement of None \<Rightarrow> w1 | Some f \<Rightarrow> focus_node f w1))"

declare acc_open.simps [simp del]

definition acc_close :: "iref \<Rightarrow> node \<Rightarrow> world \<Rightarrow> world" where
  "acc_close r panel w =
     (if hasAnimation (options (accs w r)) then slideUp panel w
      else upd panel (\<lambda>e. e\<lparr>style_display := Some ''none''\<rparr>) w)"

definition acc_isClosed :: "world \<Rightarrow> node \<Rightarrow> bool" where
  "acc_isClosed w panel = (computed_display w panel = ''none'')"

subsection \<open>Clicking a trigger\<close>

text \<open>
  The \<^verbatim>\<open>forEach\<close> over the group's panels in \<^verbatim>\<open>_handleButtonClick\<close>.  Inside it
  \<^verbatim>\<open>trigger\<close> is the inner constant of that name,
  \<^verbatim>\<open>document.getElementById(panelAriaLabelledByAttr)\<close>: the trigger that labels the
  clicked trigger's panel.
\<close>

fun close_other_panels :: "iref \<Rightarrow> acc_options \<Rightarrow> node option \<Rightarrow> node list \<Rightarrow> world \<Rightarrow> world" where
  "close_other_panels r opts trigger [] w = w"
| "close_other_panels r opts trigger (panel # rest) w =
     close_other_panels r opts trigger rest
       (case trigger of
          None \<Rightarrow> w
        | Some t \<Rightarrow>
            if Some (id_prop (elem w panel)) \<noteq> aria_controls (elem w t)
            then let w1 = upd t (\<lambda>e. e\<lparr>aria_expanded := Some ''false''\<rparr>) w
                 in if \<not> acc_isClosed w1 panel
                    then let w2 = acc_close r panel w1
                         in if onClose opts then log_call (OnClose panel) w2 else w2
                    else w1
            else w)"

text \<open>
  \<^verbatim>\<open>el.querySelectorAll(`${triggerSelector}[aria-expanded="true"]`)\<close>.  The attribute
  test is appended to the text of the selector.  When that text is a selector list, the
  test belongs to the last alternative only: an element is found when it matches one of
  the earlier alternatives, or when it matches the last one and carries
  \<^verbatim>\<open>aria-expanded="true"\<close>.  The alternatives of a list are separated by the commas that
  stand outside parentheses and brackets; the elements that the whole list finds are
  those that one of its alternatives finds.
\<close>

fun alternatives :: "nat \<Rightarrow> string \<Rightarrow> string \<Rightarrow> string list" where
  "alternatives depth cur [] = [cur]"
| "alternatives depth cur (c # s) =
     (if c = CHR '','' \<and> depth = 0 then cur # alternatives 0 [] s
      else alternatives
             (if c = CHR ''('' \<or> c = CHR ''['' then depth + 1
              else if c = CHR '')'' \<or> c = CHR '']'' then depth - 1
              else depth)
             (cur @ [c]) s)"

definition expanded_triggers :: "world \<Rightarrow> node \<Rightarrow> string \<Rightarrow> node list" where
  "expanded_triggers w el sel =
     (let alts = alternatives 0 [] sel
      in filter (\<lambda>n. list_ex (\<lambda>a. n \<in> set (query w el a)) (butlast alts) \<or>
                      (n \<in> set (query w el (last alts)) \<and>
                       aria_expanded (elem w n) = Some ''true''))
           (query w el sel))"

fun acc_handleButtonClick :: "iref \<Rightarrow> node \<Rightarrow> world \<Rightarrow> world" where
  "acc_handleButtonClick r trigger w =
     (let el = element (accs w r); opts = options (accs w r)
      in case aria_controls (elem w trigger) of
           None \<Rightarrow> w
         | Some triggerAriaControlsAttr \<Rightarrow>
             if triggerAriaControlsAttr = [] then w
             else (case getElementById w triggerAriaControlsAttr of
               None \<Rightarrow> w
             | Some panel \<Rightarrow>
                 let panelAriaLabelledByAttr = aria_labelledby (elem w panel)
                 in if aria_expanded (elem w trigger) = Some ''true'' \<and>
                       (\<not> forceExpand opts \<or>
                        (forceExpand opts \<and> allowMultiple opts \<and>
                         length (expanded_triggers w el (triggerSelector opts)) > 1))
                    then let w1 = upd trigger (\<lambda>e. e\<lparr>aria_expanded := Some ''false''\<rparr>) w;
                             w2 = acc_close r panel w1
                         in if onClose opts then log_call (OnClose panel) w2 else w2
                    else let w1 = (case panelAriaLabelledByAttr of
                                     None \<Rightarrow> w
                                   | Some lb \<Rightarrow>
                                       if \<not> allowMultiple opts \<and> lb \<noteq> []
                                       then close_other_panels r opts (getElementById w lb)
                                              (query w el (panelSelector opts)) w
                                       else w);
                             w2 = upd trigger (\<lambda>e. e\<lparr>aria_expanded := Some ''true''\<rparr>) w1;
                             w3 = acc_open r (Some panel) w2
                         in if onOpen opts then log_call (OnOpen panel) w3 else w3))"

declare acc_handleButtonClick.simps [simp del]

subsection \<open>Moving focus among the triggers\<close>

text \<open>\<^verbatim>\<open>Array.prototype.indexOf\<close> gives -1 when the element is not there; an index outside
  the list reads \<^verbatim>\<open>undefined\<close>.\<close>

fun indexOf :: "'a list \<Rightarrow> 'a \<Rightarrow> int" where
  "indexOf [] x = -1"
| "indexOf (y # ys) x = (if y = x then 0 else (let k = indexOf ys x in if k < 0 then -1 else k + 1))"

definition at_index :: "'a list \<Rightarrow> int \<Rightarrow> 'a option" where
  "at_index xs k = (if 0 \<le> k \<and> k < int (length xs) then Some (xs ! nat k) else None)"

definition focus_if_any :: "node option \<Rightarrow> world \<Rightarrow> world" where
  "focus_if_any n w = (case n of None \<Rightarrow> w | Some m \<Rightarrow> focus_node m w)"

definition is_trigger_class :: "world \<Rightarrow> string \<Rightarrow> node \<Rightarrow> bool" where
  "is_trigger_class w sel n = (drop 1 sel \<in> set (classList (elem w n)))"

definition acc_focusPreviousTab :: "iref \<Rightarrow> world \<Rightarrow> world" where
  "acc_focusPreviousTab r w =
     (let sel = triggerSelector (options (accs w r));
          triggers = query w (element (accs w r)) sel;
          triggersCount = int (length triggers)
      in case activeElement w of
           None \<Rightarrow> w
         | Some a \<Rightarrow>
             if is_trigger_class w sel a
             then let currentIndexOfActiveElement = indexOf triggers a
                  in focus_if_any
                       (at_index triggers
                          (if currentIndexOfActiveElement = 0 then triggersCount - 1
                           else currentIndexOfActiveElement - 1)) w
             else w)"

definition acc_focusNextTab :: "iref \<Rightarrow> world \<Rightarrow> world" where
  "acc_focusNextTab r w =
     (let sel = triggerSelector (options (accs w r));
          triggers = query w (element (accs w r)) sel;
          triggersCount = int (length triggers)
      in case activeElement w of
           None \<Rightarrow> w
         | Some a \<Rightarrow>
             if is_trigger_class w sel a
             then let currentIndexOfActiveElement = indexOf triggers a
                  in focus_if_any
                       (at_index triggers
                          (if currentIndexOfActiveElement = triggersCount - 1 then 0
                           else currentIndexOfActiveElement + 1)) w
             else w)"

definition acc_focusFirstTab :: "iref \<Rightarrow> world \<Rightarrow> world" where
  "acc_focusFirstTab r w =
     focus_if_any (at_index (query w (element (accs w r)) (triggerSelector (options (accs w r)))) 0) w"

definition acc_focusLastTab :: "iref \<Rightarrow> world \<Rightarrow> world" where
  "acc_focusLastTab r w =
     (let triggers = query w (element (accs w r)) (triggerSelector (options (accs w r)));
          triggersCount = int (length triggers)
      in focus_if_any (at_index triggers (triggersCount - 1)) w)"

text \<open>
  \<^verbatim>\<open>_handleKeydown\<close> run with \<^verbatim>\<open>this\<close> being the instance.  The result says whether
  \<^verbatim>\<open>preventDefault\<close> was called.
\<close>

definition acc_handleKeydown :: "iref \<Rightarrow> string \<Rightarrow> world \<Rightarrow> world \<times> bool" where
  "acc_handleKeydown r code w =
     (if \<not> focus (accs w r) then (w, False)
      else if code = ''ArrowUp'' then (acc_focusPreviousTab r w, True)
      else if code = ''ArrowDown'' then (acc_focusNextTab r w, True)
      else if code = ''Home'' then (acc_focusFirstTab r w, True)
      else if code = ''End'' then (acc_focusLastTab r w, True)
      else (w, False))"

subsection \<open>Initialising and destroying a group\<close>

text \<open>
  The identifiers that \<^verbatim>\<open>init\<close> writes are \<^verbatim>\<open>`${prefixId}-${id}-${i}`\<close> for a trigger
  and \<^verbatim>\<open>`${prefixId}-${id}-panel-${i}`\<close> for a panel: a stem followed by a number.
\<close>

definition trigger_stem :: "string \<Rightarrow> string \<Rightarrow> string" where
  "trigger_stem pre rid = pre @ ''-'' @ rid @ ''-''"

definition panel_stem :: "string \<Rightarrow> string \<Rightarrow> string" where
  "panel_stem pre rid = pre @ ''-'' @ rid @ ''-panel-''"

text \<open>One round of the loop over the triggers, and the loop.\<close>

definition init_trigger :: "iref \<Rightarrow> string \<Rightarrow> string \<Rightarrow> node \<Rightarrow> nat \<Rightarrow> world \<Rightarrow> world" where
  "init_trigger r pre rid trigger index w =
     (let i = probe w (trigger_stem pre rid) (index + 1);
          w1 = upd trigger (\<lambda>e. e\<lparr>el_id := Some (trigger_stem pre rid @ show_nat i)\<rparr>) w
      in upd trigger (\<lambda>e. e\<lparr>
           aria_controls := Some (panel_stem pre rid @ show_nat i),
           aria_expanded := Some (if index = 0 then ''true'' else ''false''),
           listeners :=
             addEventListener (''blur'', AccHandleButtonBlur r)
               (addEventListener (''focus'', AccHandleButtonFocus r)
                 (addEventListener (''click'', AccHandleButtonClick r) (listeners e)))\<rparr>) w1)"

fun init_triggers :: "iref \<Rightarrow> string \<Rightarrow> string \<Rightarrow> node list \<Rightarrow> nat \<Rightarrow> world \<Rightarrow> world" where
  "init_triggers r pre rid [] index w = w"
| "init_triggers r pre rid (trigger # rest) index w =
     init_triggers r pre rid rest (index + 1) (init_trigger r pre rid trigger index w)"

text \<open>
  One round of the loop over the panels, and the loop.  The source sets
  \<^verbatim>\<open>index = 0\<close> before this loop and the loop's body never changes it, so every round
  runs with that same value.  \<^verbatim>\<open>triggers[index]\<close> is \<^verbatim>\<open>undefined\<close> when the group has
  no trigger, and calling \<^verbatim>\<open>setAttribute\<close> on it throws.
\<close>

definition init_panel :: "iref \<Rightarrow> bool \<Rightarrow> string \<Rightarrow> string \<Rightarrow> node list \<Rightarrow> node \<Rightarrow> nat \<Rightarrow> world \<Rightarrow> world outcome" where
  "init_panel r closedDef pre rid triggers panel index w =
     (let i = probe w (panel_stem pre rid) (index + 1);
          w1 = upd panel (\<lambda>e. e\<lparr>el_id := Some (panel_stem pre rid @ show_nat i)\<rparr>) w;
          w2 = upd panel (\<lambda>e. e\<lparr>aria_labelledby := Some (trigger_stem pre rid @ show_nat i)\<rparr>) w1;
          w3 = (if index \<noteq> 0 then upd panel (\<lambda>e. e\<lparr>style_display := Some ''none''\<rparr>) w2 else w2)
      in if closedDef
         then (if index < length triggers
               then Done (acc_close r panel
                            (upd (triggers ! index) (\<lambda>e. e\<lparr>aria_expanded := Some ''false''\<rparr>) w3))
               else Threw w3)
         else Done w3)"

fun init_panels :: "iref \<Rightarrow> bool \<Rightarrow> string \<Rightarrow> string \<Rightarrow> node list \<Rightarrow> node list \<Rightarrow> nat \<Rightarrow> world \<Rightarrow> world outcome" where
  "init_panels r closedDef pre rid triggers [] index w = Done w"
| "init_panels r closedDef pre rid triggers (panel # rest) index w =
     (case init_panel r closedDef pre rid triggers panel index w of
        Threw v \<Rightarrow> Threw v
      | Done v \<Rightarrow> init_panels r closedDef pre rid triggers rest index v)"

definition set_reach :: "iref \<Rightarrow> mediaQueryList option \<Rightarrow> world \<Rightarrow> world" where
  "set_reach r configured w =
     (case configured of
        None \<Rightarrow> w
      | Some mq \<Rightarrow>
          if has_digits (media mq)
          then let w1 = (if str_includes (media mq) ''min''
                         then upd_acc r (\<lambda>a. a\<lparr>hasReachBreakpoint :=
                                Some (if innerWidth w > parseInt (first_digits (media mq)) then Above else Below)\<rparr>) w
                         else w)
               in (if str_includes (media mq) ''max''
                   then upd_acc r (\<lambda>a. a\<lparr>hasReachBreakpoint :=
                          Some (if innerWidth w \<ge> parseInt (first_digits (media mq)) then Above else Below)\<rparr>) w1
                   else w1)
          else w)"

definition acc_init :: "iref \<Rightarrow> world \<Rightarrow> world outcome" where
  "acc_init r w0 =
     (let el = element (accs w0 r);
          opts = options (accs w0 r);
          triggers = query w0 el (triggerSelector opts);
          panels = query w0 el (panelSelector opts);
          (rid, w1) = randomId w0;
          w2 = upd el (\<lambda>e. e\<lparr>data_id := Some rid\<rparr>) w1;
          w3 = (if onInit opts \<and> \<not> active (accs w2 r)
                then log_call (OnInit el) (upd_acc r (\<lambda>a. a\<lparr>active := True\<rparr>) w2)
                else w2);
          w4 = upd_acc r (\<lambda>a. a\<lparr>active := True\<rparr>) w3;
          w5 = set_reach r (mediaQuery opts) w4;
          w6 = (if closedDefault opts
                then upd_acc r (\<lambda>a. a\<lparr>options := (options a)\<lparr>forceExpand := False\<rparr>\<rparr>) w5
                else w5);
          w7 = w6\<lparr>doc_keydown := addEventListener AccProtoHandleKeydown (doc_keydown w6)\<rparr>;
          w8 = init_triggers r (prefixId opts) rid triggers 0 w7
      in init_panels r (closedDefault opts) (prefixId opts) rid triggers panels 0 w8)"

fun strip_triggers :: "iref \<Rightarrow> node list \<Rightarrow> world \<Rightarrow> world" where
  "strip_triggers r [] w = w"
| "strip_triggers r (trigger # rest) w =
     strip_triggers r rest
       (upd trigger (\<lambda>e. e\<lparr>el_id := None, aria_controls := None, aria_expanded := None,
          listeners :=
            removeEventListener (''blur'', AccHandleButtonBlur r)
              (removeEventListener (''focus'', AccHandleButtonFocus r)
                (removeEventListener (''click'', AccHandleButtonClick r) (listeners e)))\<rparr>) w)"

fun strip_panels :: "node list \<Rightarrow> world \<Rightarrow> world" where
  "strip_panels [] w = w"
| "strip_panels (panel # rest) w =
     strip_panels rest
       (upd panel (\<lambda>e. e\<lparr>el_id := None, aria_labelledby := None, style_display := None\<rparr>) w)"

text \<open>
  The static \<^verbatim>\<open>Accordion.destroy(element)\<close>.  Its last statement about listeners is
  \<^verbatim>\<open>document.addEventListener('keydown', instance.handleKeydown)\<close>.
\<close>

definition acc_destroy :: "node \<Rightarrow> world \<Rightarrow> world" where
  "acc_destroy el w =
     abstract_destroy AccordionFamily el
       (case getInstance AccordionFamily el w of
          None \<Rightarrow> w
        | Some r \<Rightarrow>
            let root = element (accs w r);
                opts = options (accs w r);
                w1 = upd_acc r (\<lambda>a. a\<lparr>active := False, activePanel := None\<rparr>) w;
                triggers = query w1 root (triggerSelector opts);
                panels = query w1 root (panelSelector opts);
                w2 = strip_panels panels (strip_triggers r triggers w1)
            in w2\<lparr>doc_keydown := addEventListener (AccHandleKeydown r) (doc_keydown w2)\<rparr>)"

subsection \<open>Resizing and construction\<close>

text \<open>
  The first condition of \<^verbatim>\<open>_handleResize\<close>, of the shape \<^verbatim>\<open>a && b && c && d || e\<close>.
  \<open>None\<close> stands for the \<^verbatim>\<open>TypeError\<close> that the right operand raises when it reads
  \<^verbatim>\<open>mediaQuery.media\<close> of no query, or element 0 of no match.
\<close>

definition crossing :: "accordion \<Rightarrow> nat \<Rightarrow> bool option" where
  "crossing a width =
     (if (case mediaQuery (options a) of
            None \<Rightarrow> False
          | Some mq \<Rightarrow> onReachBreakpoint (options a) \<and> has_digits (media mq) \<and>
              hasReachBreakpoint a = Some Above \<and> width \<le> parseInt (first_digits (media mq)))
      then Some True
      else if hasReachBreakpoint a = Some Below
      then (case mediaQuery (options a) of
              None \<Rightarrow> None
            | Some mq \<Rightarrow>
                if has_digits (media mq) then Some (width > parseInt (first_digits (media mq)))
                else None)
      else Some False)"

definition query_matches :: "mediaQueryList \<Rightarrow> world \<Rightarrow> bool" where
  "query_matches mq w = matches_at mq (innerWidth w)"

definition acc_handleResize :: "iref \<Rightarrow> world \<Rightarrow> world outcome" where
  "acc_handleResize r w =
     (let el = element (accs w r);
          configured = mediaQuery (options (accs w r))
      in case crossing (accs w r) (innerWidth w) of
           None \<Rightarrow> Threw w
         | Some crossed \<Rightarrow>
             let w1 = (if crossed
                       then let w' = upd_acc r (\<lambda>a. a\<lparr>hasReachBreakpoint :=
                                       Some (if hasReachBreakpoint a = Some Above then Below else Above)\<rparr>) w
                            in (case configured of
                                  None \<Rightarrow> w'
                                | Some mq \<Rightarrow>
                                    if onReachBreakpoint (options (accs w r))
                                    then log_call (OnReachBreakpoint (query_matches mq w')) w'
                                    else w')
                       else w)
             in if \<not> active (accs w1 r) \<and>
                   (case configured of None \<Rightarrow> True | Some mq \<Rightarrow> query_matches mq w1)
                then acc_init r w1
                else if active (accs w1 r) \<and>
                        (case configured of None \<Rightarrow> False | Some mq \<Rightarrow> \<not> query_matches mq w1)
                     then Done (acc_destroy el w1)
                     else Done w1)"

text \<open>
  \<^verbatim>\<open>new Accordion(element, options)\<close>: the reference of the instance it evaluates to,
  and the world it leaves.
\<close>

definition acc_construct :: "node \<Rightarrow> acc_overrides \<Rightarrow> world \<Rightarrow> iref \<times> world outcome" where
  "acc_construct el ov w =
     (let mergedOptions = merge_options acc_defaults ov;
          (r, isNewInstance, w1) = abstract_construct AccordionFamily el w
      in if \<not> isNewInstance then (r, Done w1)
         else let w2 = w1\<lparr>accs := (accs w1)(r :=
                         \<lparr>element = el, options = mergedOptions, active = False,
                          activePanel = None, focus = False, hasReachBreakpoint = None\<rparr>)\<rparr>;
                  w3 = w2\<lparr>resize_subs := resize_subs w2 @ [AccHandleResize r]\<rparr>
              in (r, acc_handleResize r w3))"

section \<open>Toggle\<close>

record tog_overrides =
  set_bodyScrollLock :: "bool option"
  set_bodyScrollLockMediaQuery :: "mediaQueryList option option"
  set_closeOnBlur :: "bool option"
  set_closeOnEscPress :: "bool option"
  set_tg_hasAnimation :: "bool option"
  set_isOpened :: "bool option"
  set_tg_mediaQuery :: "mediaQueryList option option"
  set_onClick :: "nat option option"
  set_tg_prefixId :: "string option"
  set_target_selector :: "string option option"

definition no_tog_overrides :: tog_overrides where
  "no_tog_overrides = \<lparr>set_bodyScrollLock = None, set_bodyScrollLockMediaQuery = None,
     set_closeOnBlur = None, set_closeOnEscPress = None, set_tg_hasAnimation = None,
     set_isOpened = None, set_tg_mediaQuery = None, set_onClick = None,
     set_tg_prefixId = None, set_target_selector = None\<rparr>"

text \<open>\<^verbatim>\<open>Toggle.defaults\<close>\<close>

definition tog_defaults :: tog_settings where
  "tog_defaults = \<lparr>bodyScrollLock = False, bodyScrollLockMediaQuery = None,
     closeOnBlur = False, closeOnEscPress = False, tg_hasAnimation = False, isOpened = False,
     tg_mediaQuery = None, onClick = None, tg_prefixId = ''toggle'', target_selector = None\<rparr>"

definition merge_settings :: "tog_settings \<Rightarrow> tog_overrides \<Rightarrow> tog_settings" where
  "merge_settings d v = \<lparr>
     bodyScrollLock = or_default (set_bodyScrollLock v) (bodyScrollLock d),
     bodyScrollLockMediaQuery = or_default (set_bodyScrollLockMediaQuery v) (bodyScrollLockMediaQuery d),
     closeOnBlur = or_default (set_closeOnBlur v) (closeOnBlur d),
     closeOnEscPress = or_default (set_closeOnEscPress v) (closeOnEscPress d),
     tg_hasAnimation = or_default (set_tg_hasAnimation v) (tg_hasAnimation d),
     isOpened = or_default (set_isOpened v) (isOpened d),
     tg_mediaQuery = or_default (set_tg_mediaQuery v) (tg_mediaQuery d),
     onClick = or_default (set_onClick v) (onClick d),
     tg_prefixId = or_default (set_tg_prefixId v) (tg_prefixId d),
     target_selector = or_default (set_target_selector v) (target_selector d)\<rparr>"

definition upd_tog :: "iref \<Rightarrow> (toggle \<Rightarrow> toggle) \<Rightarrow> world \<Rightarrow> world" where
  "upd_tog r f w = w\<lparr>togs := (togs w)(r := f (togs w r))\<rparr>"

definition set_initialized :: "iref \<Rightarrow> bool \<Rightarrow> world \<Rightarrow> world" where
  "set_initialized r b w = upd_tog r (\<lambda>g. g\<lparr>initialized := b\<rparr>) w"

text \<open>
  The scroll lock (\<^verbatim>\<open>body-scroll-lock\<close>) is outside these sources; calls to it are
  recorded.  Every method that touches \<^verbatim>\<open>this.target\<close>
  throws when the constructor found no target.
\<close>

definition tog_disableBodyScroll :: "iref \<Rightarrow> node \<Rightarrow> world \<Rightarrow> world" where
  "tog_disableBodyScroll r t w =
     (case bodyScrollLockMediaQuery (settings (togs w r)) of
        Some mq \<Rightarrow> if query_matches mq w then log_call (DisableBodyScroll t) w else w
      | None \<Rightarrow> log_call (DisableBodyScroll t) w)"

definition tog_open :: "iref \<Rightarrow> world \<Rightarrow> world outcome" where
  "tog_open r w =
     (let el = tg_element (togs w r); s = settings (togs w r)
      in case target (togs w r) of
           None \<Rightarrow> Threw w
         | Some t \<Rightarrow>
             let w1 = upd t (\<lambda>e. e\<lparr>aria_hidden := Some ''false''\<rparr>) w;
                 w2 = upd el (\<lambda>e. e\<lparr>aria_expanded := Some ''true''\<rparr>) w1;
                 w3 = (if tg_hasAnimation s then slideDown t None w2 else w2)
             in Done (if bodyScrollLock s then tog_disableBodyScroll r t w3 else w3))"

definition tog_close :: "iref \<Rightarrow> world \<Rightarrow> world outcome" where
  "tog_close r w =
     (let el = tg_element (togs w r); s = settings (togs w r)
      in case target (togs w r) of
           None \<Rightarrow> Threw w
         | Some t \<Rightarrow>
             let w1 = upd t (\<lambda>e. e\<lparr>aria_hidden := Some ''true''\<rparr>) w;
                 w2 = upd el (\<lambda>e. e\<lparr>aria_expanded := Some ''false''\<rparr>) w1;
                 w3 = (if tg_hasAnimation s then slideUp t w2 else w2)
             in Done (if bodyScrollLock s then log_call (EnableBodyScroll t) w3 else w3))"

definition tog_reset :: "iref \<Rightarrow> world \<Rightarrow> world outcome" where
  "tog_reset r w =
     (let el = tg_element (togs w r)
      in case target (togs w r) of
           None \<Rightarrow> Threw w
         | Some t \<Rightarrow>
             let w1 = upd t (\<lambda>e. e\<lparr>aria_hidden := None, aria_expanded := None\<rparr>) w;
                 w2 = upd el (\<lambda>e. e\<lparr>aria_expanded := None\<rparr>) w1
             in Done (if tg_hasAnimation (settings (togs w r))
                      then slideDown t (Some (RemoveStyle t)) w2
                      else w2))"

definition upd_listeners :: "node \<Rightarrow> ((string \<times> listener) list \<Rightarrow> (string \<times> listener) list) \<Rightarrow> world \<Rightarrow> world" where
  "upd_listeners n f w = upd n (\<lambda>e. e\<lparr>listeners := f (listeners e)\<rparr>) w"

text \<open>
  \<^verbatim>\<open>_closeOnEscPress(el)\<close> registers a new arrow function on \<^verbatim>\<open>window\<close>; nothing keeps
  a reference to it.
\<close>

definition closeOnEscPress_register :: "node \<Rightarrow> world \<Rightarrow> world" where
  "closeOnEscPress_register el w =
     w\<lparr>win_keydown := addEventListener (TogEscClosure (next_ref w) el) (win_keydown w),
       next_ref := Suc (next_ref w)\<rparr>"

text \<open>
  \<^verbatim>\<open>init()\<close> is a sequence of conditional statements; each of those that follow the
  registration of \<^verbatim>\<open>handleClick\<close> is a step of its own here, in the order of the
  source.  \<^verbatim>\<open>onClick.bind(this)\<close> is a new function object.
\<close>

definition init_onClick :: "iref \<Rightarrow> world \<Rightarrow> world" where
  "init_onClick r w =
     (case onClick (settings (togs w r)) of
        None \<Rightarrow> w
      | Some cb \<Rightarrow>
          (upd_listeners (tg_element (togs w r))
             (addEventListener (''click'', TogOnClickBound (next_ref w) r cb)) w)
            \<lparr>next_ref := Suc (next_ref w)\<rparr>)"

definition init_controls :: "iref \<Rightarrow> node \<Rightarrow> world \<Rightarrow> world" where
  "init_controls r t w =
     (let el = tg_element (togs w r)
      in if aria_controls (elem w el) = None \<or> aria_controls (elem w el) = Some []
         then let (rid, v) = randomId w;
                  new_id = tg_prefixId (settings (togs w r)) @ ''-'' @ rid
              in upd t (\<lambda>e. e\<lparr>el_id := Some new_id\<rparr>)
                   (upd el (\<lambda>e. e\<lparr>aria_controls := Some new_id\<rparr>) v)
         else w)"

definition init_closeOnBlur :: "iref \<Rightarrow> world \<Rightarrow> world" where
  "init_closeOnBlur r w =
     (if closeOnBlur (settings (togs w r))
      then upd_listeners (tg_element (togs w r)) (addEventListener (''blur'', TogHandleBlur r)) w
      else w)"

definition init_closeOnEscPress :: "iref \<Rightarrow> world \<Rightarrow> world" where
  "init_closeOnEscPress r w =
     (if closeOnEscPress (settings (togs w r))
      then closeOnEscPress_register (tg_element (togs w r)) w
      else w)"

definition init_hidden :: "iref \<Rightarrow> node \<Rightarrow> world \<Rightarrow> world" where
  "init_hidden r t w =
     (if aria_hidden (elem w t) = None
      then upd t (\<lambda>e. e\<lparr>aria_hidden :=
             Some (if isOpened (settings (togs w r)) then ''false'' else ''true'')\<rparr>) w
      else w)"

definition init_opened :: "iref \<Rightarrow> world \<Rightarrow> world" where
  "init_opened r w = (if isOpened (settings (togs w r)) then world_of (tog_open r w) else w)"

definition tog_init :: "iref \<Rightarrow> world \<Rightarrow> bool \<times> world" where
  "tog_init r w0 =
     (let el = tg_element (togs w0 r);
          w = set_initialized r True w0
      in case target (togs w r) of
           None \<Rightarrow>
             (case onClick (settings (togs w r)) of
                Some cb \<Rightarrow> (False, upd_listeners el (addEventListener (''click'', TogOnClick cb)) w)
              | None \<Rightarrow> (False, w))
         | Some t \<Rightarrow>
             (True,
              init_opened r (init_hidden r t (init_closeOnEscPress r (init_closeOnBlur r
                (init_controls r t (init_onClick r
                  (upd_listeners el (addEventListener (''click'', TogHandleClick r)) w))))))))"

definition tog_destroy :: "iref \<Rightarrow> world \<Rightarrow> world outcome" where
  "tog_destroy r w0 =
     (let el = tg_element (togs w0 r);
          w = set_initialized r False w0
      in case tog_reset r w of
           Threw v \<Rightarrow> Threw v
         | Done w1 \<Rightarrow>
             Done (case onClick (settings (togs w1 r)) of
               Some cb \<Rightarrow> upd_listeners el (removeEventListener (''click'', TogOnClick cb)) w1
             | None \<Rightarrow>
                 upd_listeners el (removeEventListener (''blur'', TogHandleBlur r))
                   (upd_listeners el (removeEventListener (''click'', TogHandleClick r)) w1)))"

text \<open>\<^verbatim>\<open>handleClick(e)\<close>; it always calls \<^verbatim>\<open>e.preventDefault()\<close>.\<close>

definition tog_handleClick :: "iref \<Rightarrow> world \<Rightarrow> world outcome" where
  "tog_handleClick r w =
     (case target (togs w r) of
        None \<Rightarrow> Threw w
      | Some t \<Rightarrow>
          (case aria_hidden (elem w t) of
             Some h \<Rightarrow>
               if h \<noteq> []
               then (if h \<noteq> ''true'' then tog_close r w else tog_open r w)
               else Done (upd t (\<lambda>e. e\<lparr>aria_hidden :=
                            Some (if isOpened (settings (togs w r)) then ''true'' else ''false'')\<rparr>) w)
           | None \<Rightarrow>
               Done (upd t (\<lambda>e. e\<lparr>aria_hidden :=
                       Some (if isOpened (settings (togs w r)) then ''true'' else ''false'')\<rparr>) w)))"

text \<open>The function that \<^verbatim>\<open>handleBlur\<close> hands to \<^verbatim>\<open>window.setTimeout\<close>.\<close>

definition blur_timeout :: "iref \<Rightarrow> world \<Rightarrow> world outcome" where
  "blur_timeout r w =
     (case target (togs w r) of
        None \<Rightarrow> Threw w
      | Some t \<Rightarrow>
          Done (upd (tg_element (togs w r)) (\<lambda>e. e\<lparr>aria_expanded := Some ''false''\<rparr>)
                  (upd t (\<lambda>e. e\<lparr>aria_hidden := Some ''true''\<rparr>) w)))"

text \<open>The module's \<^verbatim>\<open>onResize\<close>, bound to the instance.\<close>

definition tog_onResize :: "iref \<Rightarrow> world \<Rightarrow> world outcome" where
  "tog_onResize r w0 =
     (let configured = tg_mediaQuery (settings (togs w0 r));
          w = (if configured = None \<and> \<not> initialized (togs w0 r) then snd (tog_init r w0) else w0)
      in case configured of
           None \<Rightarrow> Done w
         | Some mq \<Rightarrow>
             if initialized (togs w r) \<and> \<not> query_matches mq w then tog_destroy r w
             else if \<not> initialized (togs w r) \<and> query_matches mq w then Done (snd (tog_init r w))
             else if \<not> initialized (togs w r) \<and> \<not> query_matches mq w
             then (case target (togs w r) of
                     None \<Rightarrow> Threw w
                   | Some t \<Rightarrow>
                       Done (if style_display (elem w t) = Some ''none''
                             then upd t (\<lambda>e. e\<lparr>style_display := None\<rparr>) w else w))
             else Done w)"

text \<open>
  \<^verbatim>\<open>new Toggle(element, options)\<close>.  The target is looked up once, here.
  \<^verbatim>\<open>getElementById\<close> of a missing attribute looks for the id \<^verbatim>\<open>"null"\<close>; reading
  \<^verbatim>\<open>querySelector\<close> of a missing parent throws.
\<close>

definition tog_construct :: "node \<Rightarrow> tog_overrides \<Rightarrow> world \<Rightarrow> iref \<times> world outcome" where
  "tog_construct el ov w =
     (let (r, isNewInstance, w1) = abstract_construct ToggleFamily el w
      in if \<not> isNewInstance then (r, Done w1)
         else let s = merge_settings tog_defaults ov;
                  w2 = w1\<lparr>togs := (togs w1)(r :=
                         \<lparr>tg_element = el, settings = s, target = None, initialized = False\<rparr>)\<rparr>;
                  found = (case target_selector s of
                             Some sel \<Rightarrow>
                               if sel \<noteq> []
                               then (case parentNode (elem w2 el) of
                                       None \<Rightarrow> None
                                     | Some p \<Rightarrow> Some (case query w2 p sel of [] \<Rightarrow> None | x # _ \<Rightarrow> Some x))
                               else Some (getElementById w2 (or_default (aria_controls (elem w2 el)) ''null''))
                           | None \<Rightarrow> Some (getElementById w2 (or_default (aria_controls (elem w2 el)) ''null'')))
              in case found of
                   None \<Rightarrow> (r, Threw w2)
                 | Some tg \<Rightarrow>
                     let w3 = upd_tog r (\<lambda>g. g\<lparr>target := tg, initialized := False\<rparr>) w2;
                         w4 = w3\<lparr>resize_subs := resize_subs w3 @ [TogOnResize r]\<rparr>
                     in (r, tog_onResize r w4))"

section \<open>Events\<close>

text \<open>
  A click on a node runs the node's click listeners in the order of their registration.
  An exception thrown by one listener is reported by the browser and does not keep the
  others from running.  A configured \<^verbatim>\<open>onClick\<close> callback is recorded.
\<close>

fun on_click :: "node \<Rightarrow> listener \<Rightarrow> world \<Rightarrow> world" where
  "on_click n (AccHandleButtonClick r) w = acc_handleButtonClick r n w"
| "on_click n (TogHandleClick r) w = world_of (tog_handleClick r w)"
| "on_click n (TogOnClick cb) w = log_call (OnClick cb) w"
| "on_click n (TogOnClickBound k r cb) w = log_call (OnClick cb) w"
| "on_click n _ w = w"

definition click :: "node \<Rightarrow> world \<Rightarrow> world" where
  "click n w = foldl (\<lambda>v l. on_click n l v) w (listeners_for ''click'' n w)"

record keyboardEvent =
  code :: string
  key :: string
  keyCode :: nat

text \<open>
  The arrow function of \<^verbatim>\<open>_closeOnEscPress(el)\<close>.  It throws when no element carries
  the id that \<^verbatim>\<open>el\<close> names in \<^verbatim>\<open>aria-controls\<close>.
\<close>

definition esc_closure :: "node \<Rightarrow> keyboardEvent \<Rightarrow> bool \<Rightarrow> world \<Rightarrow> world" where
  "esc_closure el e defaultPrevented w =
     (if defaultPrevented then w
      else if key e = ''Escape'' \<or> key e = ''Esc'' \<or> (key e = [] \<and> keyCode e = 27)
      then (case getElementById w (or_default (aria_controls (elem w el)) ''null'') of
              None \<Rightarrow> w
            | Some t \<Rightarrow> if aria_hidden (elem w t) \<noteq> Some ''true'' then click el w else w)
      else w)"

text \<open>
  A \<^verbatim>\<open>keydown\<close> event reaches the listeners of \<^verbatim>\<open>document\<close> and then those of
  \<^verbatim>\<open>window\<close>.  A listener is called with \<^verbatim>\<open>this\<close> set to the object it is registered
  on, unless it is a bound function.  So \<^verbatim>\<open>Accordion.prototype._handleKeydown\<close>
  registered as it is runs with \<^verbatim>\<open>this\<close> being the document; the document has no
  property \<^verbatim>\<open>focus\<close>, \<^verbatim>\<open>!this.focus\<close> holds, and the method returns at once.
\<close>

fun on_keydown :: "keyboardEvent \<Rightarrow> listener \<Rightarrow> world \<times> bool \<Rightarrow> world \<times> bool" where
  "on_keydown e (AccHandleKeydown r) (w, prevented) =
     (let (w', p) = acc_handleKeydown r (code e) w in (w', prevented \<or> p))"
| "on_keydown e AccProtoHandleKeydown (w, prevented) = (w, prevented)"
| "on_keydown e (TogEscClosure k el) (w, prevented) = (esc_closure el e prevented w, prevented)"
| "on_keydown e _ (w, prevented) = (w, prevented)"

definition keydown :: "keyboardEvent \<Rightarrow> world \<Rightarrow> world \<times> bool" where
  "keydown e w =
     foldl (\<lambda>s l. on_keydown e l s)
       (foldl (\<lambda>s l. on_keydown e l s) (w, False) (doc_keydown w)) (win_keydown w)"

text \<open>
  A resize notification: the viewport has its new width and every subscribed handler
  runs once.
\<close>

fun on_resize :: "resize_handler \<Rightarrow> world \<Rightarrow> world" where
  "on_resize (AccHandleResize r) w = world_of (acc_handleResize r w)"
| "on_resize (TogOnResize r) w = world_of (tog_onResize r w)"

definition resize :: "nat \<Rightarrow> world \<Rightarrow> world" where
  "resize width w = foldl (\<lambda>v h. on_resize h v) (w\<lparr>innerWidth := width\<rparr>) (resize_subs w)"

text \<open>
  Time passes one millisecond at a time; the queued callbacks that are due run in the
  order in which they were queued.
\<close>

fun run_task :: "task \<Rightarrow> world \<Rightarrow> world" where
  "run_task (BlurClose r) w = world_of (blur_timeout r w)"
| "run_task (FocusWhenShown f) w = focus_node f w"
| "run_task (RemoveStyle t) w = upd t (\<lambda>e. e\<lparr>style_display := None\<rparr>) w"

definition tick :: "world \<Rightarrow> world" where
  "tick w =
     (let t = Suc (now w);
          due = filter (\<lambda>p. fst p \<le> t) (timers w);
          w1 = w\<lparr>now := t, timers := filter (\<lambda>p. \<not> fst p \<le> t) (timers w)\<rparr>
      in foldl (\<lambda>v p. run_task (snd p) v) w1 due)"

fun advance :: "nat \<Rightarrow> world \<Rightarrow> world" where
  "advance 0 w = w"
| "advance (Suc n) w = advance n (tick w)"

section \<open>How the primitive updates act on the fields\<close>

lemma upd_fields [simp]:
  "doc_order (upd n f w) = doc_order w"
  "elem (upd n f w) = (elem w)(n := f (elem w n))"
  "query (upd n f w) = query w"
  "activeElement (upd n f w) = activeElement w"
  "doc_keydown (upd n f w) = doc_keydown w"
  "win_keydown (upd n f w) = win_keydown w"
  "innerWidth (upd n f w) = innerWidth w"
  "registry (upd n f w) = registry w"
  "accs (upd n f w) = accs w"
  "togs (upd n f w) = togs w"
  "next_ref (upd n f w) = next_ref w"
  "resize_subs (upd n f w) = resize_subs w"
  "calls (upd n f w) = calls w"
  "random_src (upd n f w) = random_src w"
  "random_calls (upd n f w) = random_calls w"
  "now (upd n f w) = now w"
  "timers (upd n f w) = timers w"
  by (simp_all add: upd_def)

lemma log_call_fields [simp]:
  "doc_order (log_call c w) = doc_order w"
  "elem (log_call c w) = elem w"
  "query (log_call c w) = query w"
  "activeElement (log_call c w) = activeElement w"
  "doc_keydown (log_call c w) = doc_keydown w"
  "win_keydown (log_call c w) = win_keydown w"
  "innerWidth (log_call c w) = innerWidth w"
  "registry (log_call c w) = registry w"
  "accs (log_call c w) = accs w"
  "togs (log_call c w) = togs w"
  "next_ref (log_call c w) = next_ref w"
  "resize_subs (log_call c w) = resize_subs w"
  "calls (log_call c w) = calls w @ [c]"
  "random_src (log_call c w) = random_src w"
  "random_calls (log_call c w) = random_calls w"
  "now (log_call c w) = now w"
  "timers (log_call c w) = timers w"
  by (simp_all add: log_call_def)

lemma upd_acc_fields [simp]:
  "doc_order (upd_acc r f w) = doc_order w"
  "elem (upd_acc r f w) = elem w"
  "query (upd_acc r f w) = query w"
  "activeElement (upd_acc r f w) = activeElement w"
  "doc_keydown (upd_acc r f w) = doc_keydown w"
  "win_keydown (upd_acc r f w) = win_keydown w"
  "innerWidth (upd_acc r f w) = innerWidth w"
  "registry (upd_acc r f w) = registry w"
  "accs (upd_acc r f w) = (accs w)(r := f (accs w r))"
  "togs (upd_acc r f w) = togs w"
  "next_ref (upd_acc r f w) = next_ref w"
  "resize_subs (upd_acc r f w) = resize_subs w"
  "calls (upd_acc r f w) = calls w"
  "random_src (upd_acc r f w) = random_src w"
  "random_calls (upd_acc r f w) = random_calls w"
  "now (upd_acc r f w) = now w"
  "timers (upd_acc r f w) = timers w"
  by (simp_all add: upd_acc_def)

lemma upd_tog_fields [simp]:
  "doc_order (upd_tog r f w) = doc_order w"
  "elem (upd_tog r f w) = elem w"
  "query (upd_tog r f w) = query w"
  "activeElement (upd_tog r f w) = activeElement w"
  "doc_keydown (upd_tog r f w) = doc_keydown w"
  "win_keydown (upd_tog r f w) = win_keydown w"
  "innerWidth (upd_tog r f w) = innerWidth w"
  "registry (upd_tog r f w) = registry w"
  "accs (upd_tog r f w) = accs w"
  "togs (upd_tog r f w) = (togs w)(r := f (togs w r))"
  "next_ref (upd_tog r f w) = next_ref w"
  "resize_subs (upd_tog r f w) = resize_subs w"
  "calls (upd_tog r f w) = calls w"
  "random_src (upd_tog r f w) = random_src w"
  "random_calls (upd_tog r f w) = random_calls w"
  "now (upd_tog r f w) = now w"
  "timers (upd_tog r f w) = timers w"
  by (simp_all add: upd_tog_def)

lemma setTimeout_fields [simp]:
  "doc_order (setTimeout f d w) = doc_order w"
  "elem (setTimeout f d w) = elem w"
  "query (setTimeout f d w) = query w"
  "activeElement (setTimeout f d w) = activeElement w"
  "doc_keydown (setTimeout f d w) = doc_keydown w"
  "win_keydown (setTimeout f d w) = win_keydown w"
  "innerWidth (setTimeout f d w) = innerWidth w"
  "registry (setTimeout f d w) = registry w"
  "accs (setTimeout f d w) = accs w"
  "togs (setTimeout f d w) = togs w"
  "next_ref (setTimeout f d w) = next_ref w"
  "resize_subs (setTimeout f d w) = resize_subs w"
  "calls (setTimeout f d w) = calls w"
  "random_src (setTimeout f d w) = random_src w"
  "random_calls (setTimeout f d w) = random_calls w"
  "now (setTimeout f d w) = now w"
  by (simp_all add: setTimeout_def)

lemma setTimeout_timers [simp]: "timers (setTimeout f d w) = timers w @ [(now w + d, f)]"
  by (simp add: setTimeout_def)

lemma set_activeElement_fields [simp]:
  "doc_order (set_activeElement n w) = doc_order w"
  "elem (set_activeElement n w) = elem w"
  "query (set_activeElement n w) = query w"
  "doc_keydown (set_activeElement n w) = doc_keydown w"
  "win_keydown (set_activeElement n w) = win_keydown w"
  "innerWidth (set_activeElement n w) = innerWidth w"
  "registry (set_activeElement n w) = registry w"
  "accs (set_activeElement n w) = accs w"
  "togs (set_activeElement n w) = togs w"
  "next_ref (set_activeElement n w) = next_ref w"
  "resize_subs (set_activeElement n w) = resize_subs w"
  "calls (set_activeElement n w) = calls w"
  "random_src (set_activeElement n w) = random_src w"
  "random_calls (set_activeElement n w) = random_calls w"
  "now (set_activeElement n w) = now w"
  "timers (set_activeElement n w) = timers w"
  by (simp_all add: set_activeElement_def)

lemma set_activeElement_activeElement [simp]: "activeElement (set_activeElement n w) = Some n"
  by (simp add: set_activeElement_def)

lemma slideUp_fields [simp]:
  "doc_order (slideUp n w) = doc_order w"
  "elem (slideUp n w) = elem w"
  "query (slideUp n w) = query w"
  "activeElement (slideUp n w) = activeElement w"
  "doc_keydown (slideUp n w) = doc_keydown w"
  "win_keydown (slideUp n w) = win_keydown w"
  "innerWidth (slideUp n w) = innerWidth w"
  "registry (slideUp n w) = registry w"
  "accs (slideUp n w) = accs w"
  "togs (slideUp n w) = togs w"
  "next_ref (slideUp n w) = next_ref w"
  "resize_subs (slideUp n w) = resize_subs w"
  "random_src (slideUp n w) = random_src w"
  "random_calls (slideUp n w) = random_calls w"
  "now (slideUp n w) = now w"
  "timers (slideUp n w) = timers w"
  by (simp_all add: slideUp_def)

lemma slideDown_fields [simp]:
  "doc_order (slideDown n f w) = doc_order w"
  "elem (slideDown n f w) = elem w"
  "query (slideDown n f w) = query w"
  "activeElement (slideDown n f w) = activeElement w"
  "doc_keydown (slideDown n f w) = doc_keydown w"
  "win_keydown (slideDown n f w) = win_keydown w"
  "innerWidth (slideDown n f w) = innerWidth w"
  "registry (slideDown n f w) = registry w"
  "accs (slideDown n f w) = accs w"
  "togs (slideDown n f w) = togs w"
  "next_ref (slideDown n f w) = next_ref w"
  "resize_subs (slideDown n f w) = resize_subs w"
  "random_src (slideDown n f w) = random_src w"
  "random_calls (slideDown n f w) = random_calls w"
  "now (slideDown n f w) = now w"
  by (simp_all add: slideDown_def split: option.split)

lemma set_initialized_fields [simp]:
  "doc_order (set_initialized r b w) = doc_order w"
  "elem (set_initialized r b w) = elem w"
  "query (set_initialized r b w) = query w"
  "activeElement (set_initialized r b w) = activeElement w"
  "doc_keydown (set_initialized r b w) = doc_keydown w"
  "win_keydown (set_initialized r b w) = win_keydown w"
  "innerWidth (set_initialized r b w) = innerWidth w"
  "registry (set_initialized r b w) = registry w"
  "accs (set_initialized r b w) = accs w"
  "next_ref (set_initialized r b w) = next_ref w"
  "resize_subs (set_initialized r b w) = resize_subs w"
  "calls (set_initialized r b w) = calls w"
  "random_src (set_initialized r b w) = random_src w"
  "random_calls (set_initialized r b w) = random_calls w"
  "now (set_initialized r b w) = now w"
  "timers (set_initialized r b w) = timers w"
  by (simp_all add: set_initialized_def)

lemma foldl_keeps: "(\<And>v x. P (f v x) = P v) \<Longrightarrow> P (foldl f w xs) = P w"
  by (induction xs arbitrary: w) simp_all

lemma acc_handleButtonFocus_fields [simp]:
  "doc_order (acc_handleButtonFocus r w) = doc_order w"
  "elem (acc_handleButtonFocus r w) = elem w"
  "query (acc_handleButtonFocus r w) = query w"
  "activeElement (acc_handleButtonFocus r w) = activeElement w"
  "doc_keydown (acc_handleButtonFocus r w) = doc_keydown w"
  "win_keydown (acc_handleButtonFocus r w) = win_keydown w"
  "innerWidth (acc_handleButtonFocus r w) = innerWidth w"
  "registry (acc_handleButtonFocus r w) = registry w"
  "togs (acc_handleButtonFocus r w) = togs w"
  "next_ref (acc_handleButtonFocus r w) = next_ref w"
  "resize_subs (acc_handleButtonFocus r w) = resize_subs w"
  "calls (acc_handleButtonFocus r w) = calls w"
  "random_src (acc_handleButtonFocus r w) = random_src w"
  "random_calls (acc_handleButtonFocus r w) = random_calls w"
  "now (acc_handleButtonFocus r w) = now w"
  "timers (acc_handleButtonFocus r w) = timers w"
  by (simp_all add: acc_handleButtonFocus_def)

lemma acc_handleButtonBlur_fields [simp]:
  "doc_order (acc_handleButtonBlur r w) = doc_order w"
  "elem (acc_handleButtonBlur r w) = elem w"
  "query (acc_handleButtonBlur r w) = query w"
  "activeElement (acc_handleButtonBlur r w) = activeElement w"
  "doc_keydown (acc_handleButtonBlur r w) = doc_keydown w"
  "win_keydown (acc_handleButtonBlur r w) = win_keydown w"
  "innerWidth (acc_handleButtonBlur r w) = innerWidth w"
  "registry (acc_handleButtonBlur r w) = registry w"
  "togs (acc_handleButtonBlur r w) = togs w"
  "next_ref (acc_handleButtonBlur r w) = next_ref w"
  "resize_subs (acc_handleButtonBlur r w) = resize_subs w"
  "calls (acc_handleButtonBlur r w) = calls w"
  "random_src (acc_handleButtonBlur r w) = random_src w"
  "random_calls (acc_handleButtonBlur r w) = random_calls w"
  "now (acc_handleButtonBlur r w) = now w"
  "timers (acc_handleButtonBlur r w) = timers w"
  by (simp_all add: acc_handleButtonBlur_def)

lemma tog_handleBlur_fields [simp]:
  "doc_order (tog_handleBlur r w) = doc_order w"
  "elem (tog_handleBlur r w) = elem w"
  "query (tog_handleBlur r w) = query w"
  "activeElement (tog_handleBlur r w) = activeElement w"
  "doc_keydown (tog_handleBlur r w) = doc_keydown w"
  "win_keydown (tog_handleBlur r w) = win_keydown w"
  "innerWidth (tog_handleBlur r w) = innerWidth w"
  "registry (tog_handleBlur r w) = registry w"
  "accs (tog_handleBlur r w) = accs w"
  "togs (tog_handleBlur r w) = togs w"
  "next_ref (tog_handleBlur r w) = next_ref w"
  "resize_subs (tog_handleBlur r w) = resize_subs w"
  "calls (tog_handleBlur r w) = calls w"
  "random_src (tog_handleBlur r w) = random_src w"
  "random_calls (tog_handleBlur r w) = random_calls w"
  "now (tog_handleBlur r w) = now w"
  by (simp_all add: tog_handleBlur_def)

lemma on_focus_blur_fields [simp]:
  "doc_order (on_focus_blur l w) = doc_order w"
  "elem (on_focus_blur l w) = elem w"
  "query (on_focus_blur l w) = query w"
  "activeElement (on_focus_blur l w) = activeElement w"
  "doc_keydown (on_focus_blur l w) = doc_keydown w"
  "win_keydown (on_focus_blur l w) = win_keydown w"
  "innerWidth (on_focus_blur l w) = innerWidth w"
  "registry (on_focus_blur l w) = registry w"
  "togs (on_focus_blur l w) = togs w"
  "next_ref (on_focus_blur l w) = next_ref w"
  "resize_subs (on_focus_blur l w) = resize_subs w"
  "calls (on_focus_blur l w) = calls w"
  "random_src (on_focus_blur l w) = random_src w"
  "random_calls (on_focus_blur l w) = random_calls w"
  "now (on_focus_blur l w) = now w"
  by (cases l; simp)+

lemma fire_fields [simp]:
  "doc_order (fire ev n w) = doc_order w"
  "elem (fire ev n w) = elem w"
  "query (fire ev n w) = query w"
  "activeElement (fire ev n w) = activeElement w"
  "doc_keydown (fire ev n w) = doc_keydown w"
  "win_keydown (fire ev n w) = win_keydown w"
  "innerWidth (fire ev n w) = innerWidth w"
  "registry (fire ev n w) = registry w"
  "togs (fire ev n w) = togs w"
  "next_ref (fire ev n w) = next_ref w"
  "resize_subs (fire ev n w) = resize_subs w"
  "calls (fire ev n w) = calls w"
  "random_src (fire ev n w) = random_src w"
  "random_calls (fire ev n w) = random_calls w"
  "now (fire ev n w) = now w"
  unfolding fire_def by (rule foldl_keeps, simp)+

lemma focus_node_fields [simp]:
  "doc_order (focus_node n w) = doc_order w"
  "elem (focus_node n w) = elem w"
  "query (focus_node n w) = query w"
  "doc_keydown (focus_node n w) = doc_keydown w"
  "win_keydown (focus_node n w) = win_keydown w"
  "innerWidth (focus_node n w) = innerWidth w"
  "registry (focus_node n w) = registry w"
  "togs (focus_node n w) = togs w"
  "next_ref (focus_node n w) = next_ref w"
  "resize_subs (focus_node n w) = resize_subs w"
  "calls (focus_node n w) = calls w"
  "random_src (focus_node n w) = random_src w"
  "random_calls (focus_node n w) = random_calls w"
  "now (focus_node n w) = now w"
  by (simp_all add: focus_node_def Let_def split: option.split)

lemma focus_node_activeElement:
  "activeElement (focus_node n w) =
     (if activeElement w = Some n \<or> \<not> focusable (elem w n) then activeElement w else Some n)"
proof -
  have "activeElement (fire ev m v) = activeElement v" for ev m v
    unfolding fire_def by (rule foldl_keeps) (cases rule: on_focus_blur.cases, simp_all add:
      acc_handleButtonFocus_def acc_handleButtonBlur_def tog_handleBlur_def)
  then show ?thesis
    by (simp add: focus_node_def Let_def)
qed

lemma acc_close_fields [simp]:
  "doc_order (acc_close r p w) = doc_order w"
  "query (acc_close r p w) = query w"
  "activeElement (acc_close r p w) = activeElement w"
  "doc_keydown (acc_close r p w) = doc_keydown w"
  "win_keydown (acc_close r p w) = win_keydown w"
  "innerWidth (acc_close r p w) = innerWidth w"
  "registry (acc_close r p w) = registry w"
  "accs (acc_close r p w) = accs w"
  "togs (acc_close r p w) = togs w"
  "next_ref (acc_close r p w) = next_ref w"
  "resize_subs (acc_close r p w) = resize_subs w"
  "random_src (acc_close r p w) = random_src w"
  "random_calls (acc_close r p w) = random_calls w"
  "now (acc_close r p w) = now w"
  "timers (acc_close r p w) = timers w"
  by (simp_all add: acc_close_def)

lemma init_trigger_fields [simp]:
  "doc_order (init_trigger r pre rid t index w) = doc_order w"
  "query (init_trigger r pre rid t index w) = query w"
  "activeElement (init_trigger r pre rid t index w) = activeElement w"
  "doc_keydown (init_trigger r pre rid t index w) = doc_keydown w"
  "win_keydown (init_trigger r pre rid t index w) = win_keydown w"
  "innerWidth (init_trigger r pre rid t index w) = innerWidth w"
  "registry (init_trigger r pre rid t index w) = registry w"
  "accs (init_trigger r pre rid t index w) = accs w"
  "togs (init_trigger r pre rid t index w) = togs w"
  "next_ref (init_trigger r pre rid t index w) = next_ref w"
  "resize_subs (init_trigger r pre rid t index w) = resize_subs w"
  "calls (init_trigger r pre rid t index w) = calls w"
  "random_src (init_trigger r pre rid t index w) = random_src w"
  "random_calls (init_trigger r pre rid t index w) = random_calls w"
  "now (init_trigger r pre rid t index w) = now w"
  "timers (init_trigger r pre rid t index w) = timers w"
  by (simp_all add: init_trigger_def Let_def)

lemma init_triggers_fields [simp]:
  "doc_order (init_triggers r pre rid ts index w) = doc_order w"
  "query (init_triggers r pre rid ts index w) = query w"
  "activeElement (init_triggers r pre rid ts index w) = activeElement w"
  "doc_keydown (init_triggers r pre rid ts index w) = doc_keydown w"
  "win_keydown (init_triggers r pre rid ts index w) = win_keydown w"
  "innerWidth (init_triggers r pre rid ts index w) = innerWidth w"
  "registry (init_triggers r pre rid ts index w) = registry w"
  "accs (init_triggers r pre rid ts index w) = accs w"
  "togs (init_triggers r pre rid ts index w) = togs w"
  "next_ref (init_triggers r pre rid ts index w) = next_ref w"
  "resize_subs (init_triggers r pre rid ts index w) = resize_subs w"
  "calls (init_triggers r pre rid ts index w) = calls w"
  "random_src (init_triggers r pre rid ts index w) = random_src w"
  "random_calls (init_triggers r pre rid ts index w) = random_calls w"
  "now (init_triggers r pre rid ts index w) = now w"
  "timers (init_triggers r pre rid ts index w) = timers w"
  by (induction ts arbitrary: index w; simp)+

lemma init_panel_fields [simp]:
  "doc_order (world_of (init_panel r c pre rid ts p index w)) = doc_order w"
  "query (world_of (init_panel r c pre rid ts p index w)) = query w"
  "activeElement (world_of (init_panel r c pre rid ts p index w)) = activeElement w"
  "doc_keydown (world_of (init_panel r c pre rid ts p index w)) = doc_keydown w"
  "win_keydown (world_of (init_panel r c pre rid ts p index w)) = win_keydown w"
  "innerWidth (world_of (init_panel r c pre rid ts p index w)) = innerWidth w"
  "registry (world_of (init_panel r c pre rid ts p index w)) = registry w"
  "accs (world_of (init_panel r c pre rid ts p index w)) = accs w"
  "togs (world_of (init_panel r c pre rid ts p index w)) = togs w"
  "next_ref (world_of (init_panel r c pre rid ts p index w)) = next_ref w"
  "resize_subs (world_of (init_panel r c pre rid ts p index w)) = resize_subs w"
  "random_src (world_of (init_panel r c pre rid ts p index w)) = random_src w"
  "random_calls (world_of (init_panel r c pre rid ts p index w)) = random_calls w"
  "now (world_of (init_panel r c pre rid ts p index w)) = now w"
  "timers (world_of (init_panel r c pre rid ts p index w)) = timers w"
  by (simp_all add: init_panel_def Let_def)

lemma init_panels_fields [simp]:
  "doc_order (world_of (init_panels r c pre rid ts ps index w)) = doc_order w"
  "query (world_of (init_panels r c pre rid ts ps index w)) = query w"
  "activeElement (world_of (init_panels r c pre rid ts ps index w)) = activeElement w"
  "doc_keydown (world_of (init_panels r c pre rid ts ps index w)) = doc_keydown w"
  "win_keydown (world_of (init_panels r c pre rid ts ps index w)) = win_keydown w"
  "innerWidth (world_of (init_panels r c pre rid ts ps index w)) = innerWidth w"
  "registry (world_of (init_panels r c pre rid ts ps index w)) = registry w"
  "accs (world_of (init_panels r c pre rid ts ps index w)) = accs w"
  "togs (world_of (init_panels r c pre rid ts ps index w)) = togs w"
  "next_ref (world_of (init_panels r c pre rid ts ps index w)) = next_ref w"
  "resize_subs (world_of (init_panels r c pre rid ts ps index w)) = resize_subs w"
  "random_src (world_of (init_panels r c pre rid ts ps index w)) = random_src w"
  "random_calls (world_of (init_panels r c pre rid ts ps index w)) = random_calls w"
  "now (world_of (init_panels r c pre rid ts ps index w)) = now w"
  "timers (world_of (init_panels r c pre rid ts ps index w)) = timers w"
  by (induction ps arbitrary: w; simp split: outcome.split; metis init_panel_fields world_of.simps)+

lemma strip_triggers_fields [simp]:
  "doc_order (strip_triggers r ts w) = doc_order w"
  "query (strip_triggers r ts w) = query w"
  "activeElement (strip_triggers r ts w) = activeElement w"
  "doc_keydown (strip_triggers r ts w) = doc_keydown w"
  "win_keydown (strip_triggers r ts w) = win_keydown w"
  "innerWidth (strip_triggers r ts w) = innerWidth w"
  "registry (strip_triggers r ts w) = registry w"
  "accs (strip_triggers r ts w) = accs w"
  "togs (strip_triggers r ts w) = togs w"
  "next_ref (strip_triggers r ts w) = next_ref w"
  "resize_subs (strip_triggers r ts w) = resize_subs w"
  "calls (strip_triggers r ts w) = calls w"
  "random_src (strip_triggers r ts w) = random_src w"
  "random_calls (strip_triggers r ts w) = random_calls w"
  "now (strip_triggers r ts w) = now w"
  "timers (strip_triggers r ts w) = timers w"
  by (induction ts arbitrary: w; simp)+

lemma strip_panels_fields [simp]:
  "doc_order (strip_panels ps w) = doc_order w"
  "query (strip_panels ps w) = query w"
  "activeElement (strip_panels ps w) = activeElement w"
  "doc_keydown (strip_panels ps w) = doc_keydown w"
  "win_keydown (strip_panels ps w) = win_keydown w"
  "innerWidth (strip_panels ps w) = innerWidth w"
  "registry (strip_panels ps w) = registry w"
  "accs (strip_panels ps w) = accs w"
  "togs (strip_panels ps w) = togs w"
  "next_ref (strip_panels ps w) = next_ref w"
  "resize_subs (strip_panels ps w) = resize_subs w"
  "calls (strip_panels ps w) = calls w"
  "random_src (strip_panels ps w) = random_src w"
  "random_calls (strip_panels ps w) = random_calls w"
  "now (strip_panels ps w) = now w"
  "timers (strip_panels ps w) = timers w"
  by (induction ps arbitrary: w; simp)+



lemma set_reach_fields [simp]:
  "doc_order (set_reach r c w) = doc_order w"
  "elem (set_reach r c w) = elem w"
  "query (set_reach r c w) = query w"
  "activeElement (set_reach r c w) = activeElement w"
  "doc_keydown (set_reach r c w) = doc_keydown w"
  "win_keydown (set_reach r c w) = win_keydown w"
  "innerWidth (set_reach r c w) = innerWidth w"
  "registry (set_reach r c w) = registry w"
  "togs (set_reach r c w) = togs w"
  "next_ref (set_reach r c w) = next_ref w"
  "resize_subs (set_reach r c w) = resize_subs w"
  "calls (set_reach r c w) = calls w"
  "random_src (set_reach r c w) = random_src w"
  "random_calls (set_reach r c w) = random_calls w"
  "now (set_reach r c w) = now w"
  "timers (set_reach r c w) = timers w"
  by (simp_all add: set_reach_def Let_def split: option.split)

lemma acc_init_fields [simp]:
  "doc_order (world_of (acc_init r w)) = doc_order w"
  "query (world_of (acc_init r w)) = query w"
  "activeElement (world_of (acc_init r w)) = activeElement w"
  "win_keydown (world_of (acc_init r w)) = win_keydown w"
  "innerWidth (world_of (acc_init r w)) = innerWidth w"
  "registry (world_of (acc_init r w)) = registry w"
  "togs (world_of (acc_init r w)) = togs w"
  "next_ref (world_of (acc_init r w)) = next_ref w"
  "resize_subs (world_of (acc_init r w)) = resize_subs w"
  "random_src (world_of (acc_init r w)) = random_src w"
  "now (world_of (acc_init r w)) = now w"
  "timers (world_of (acc_init r w)) = timers w"
  by (simp_all add: acc_init_def Let_def split_def randomId_def)

lemma acc_destroy_fields [simp]:
  "doc_order (acc_destroy el w) = doc_order w"
  "query (acc_destroy el w) = query w"
  "activeElement (acc_destroy el w) = activeElement w"
  "win_keydown (acc_destroy el w) = win_keydown w"
  "innerWidth (acc_destroy el w) = innerWidth w"
  "togs (acc_destroy el w) = togs w"
  "next_ref (acc_destroy el w) = next_ref w"
  "resize_subs (acc_destroy el w) = resize_subs w"
  "calls (acc_destroy el w) = calls w"
  "random_src (acc_destroy el w) = random_src w"
  "random_calls (acc_destroy el w) = random_calls w"
  "now (acc_destroy el w) = now w"
  "timers (acc_destroy el w) = timers w"
  by (simp_all add: acc_destroy_def abstract_destroy_def Let_def split: option.split)

lemma acc_handleResize_fields [simp]:
  "doc_order (world_of (acc_handleResize r w)) = doc_order w"
  "query (world_of (acc_handleResize r w)) = query w"
  "activeElement (world_of (acc_handleResize r w)) = activeElement w"
  "win_keydown (world_of (acc_handleResize r w)) = win_keydown w"
  "innerWidth (world_of (acc_handleResize r w)) = innerWidth w"
  "togs (world_of (acc_handleResize r w)) = togs w"
  "next_ref (world_of (acc_handleResize r w)) = next_ref w"
  "resize_subs (world_of (acc_handleResize r w)) = resize_subs w"
  "random_src (world_of (acc_handleResize r w)) = random_src w"
  "now (world_of (acc_handleResize r w)) = now w"
  "timers (world_of (acc_handleResize r w)) = timers w"
  by (simp_all add: acc_handleResize_def Let_def split: option.split)

lemma acc_open_fields [simp]:
  "doc_order (acc_open r p w) = doc_order w"
  "query (acc_open r p w) = query w"
  "doc_keydown (acc_open r p w) = doc_keydown w"
  "win_keydown (acc_open r p w) = win_keydown w"
  "innerWidth (acc_open r p w) = innerWidth w"
  "registry (acc_open r p w) = registry w"
  "togs (acc_open r p w) = togs w"
  "next_ref (acc_open r p w) = next_ref w"
  "resize_subs (acc_open r p w) = resize_subs w"
  "random_src (acc_open r p w) = random_src w"
  "random_calls (acc_open r p w) = random_calls w"
  "now (acc_open r p w) = now w"
  by (cases p; simp add: acc_open.simps Let_def split: list.split)+

lemma close_other_panels_fields [simp]:
  "doc_order (close_other_panels r opts t ps w) = doc_order w"
  "query (close_other_panels r opts t ps w) = query w"
  "activeElement (close_other_panels r opts t ps w) = activeElement w"
  "doc_keydown (close_other_panels r opts t ps w) = doc_keydown w"
  "win_keydown (close_other_panels r opts t ps w) = win_keydown w"
  "innerWidth (close_other_panels r opts t ps w) = innerWidth w"
  "registry (close_other_panels r opts t ps w) = registry w"
  "accs (close_other_panels r opts t ps w) = accs w"
  "togs (close_other_panels r opts t ps w) = togs w"
  "next_ref (close_other_panels r opts t ps w) = next_ref w"
  "resize_subs (close_other_panels r opts t ps w) = resize_subs w"
  "random_src (close_other_panels r opts t ps w) = random_src w"
  "random_calls (close_other_panels r opts t ps w) = random_calls w"
  "now (close_other_panels r opts t ps w) = now w"
  "timers (close_other_panels r opts t ps w) = timers w"
  by (induction ps arbitrary: w; simp add: Let_def split: option.split)+

lemma acc_handleButtonClick_fields [simp]:
  "doc_order (acc_handleButtonClick r t w) = doc_order w"
  "query (acc_handleButtonClick r t w) = query w"
  "doc_keydown (acc_handleButtonClick r t w) = doc_keydown w"
  "win_keydown (acc_handleButtonClick r t w) = win_keydown w"
  "innerWidth (acc_handleButtonClick r t w) = innerWidth w"
  "registry (acc_handleButtonClick r t w) = registry w"
  "togs (acc_handleButtonClick r t w) = togs w"
  "next_ref (acc_handleButtonClick r t w) = next_ref w"
  "resize_subs (acc_handleButtonClick r t w) = resize_subs w"
  "random_src (acc_handleButtonClick r t w) = random_src w"
  "random_calls (acc_handleButtonClick r t w) = random_calls w"
  "now (acc_handleButtonClick r t w) = now w"
  by (simp_all add: acc_handleButtonClick.simps Let_def split: option.split)

lemma focus_if_any_fields [simp]:
  "doc_order (focus_if_any n w) = doc_order w"
  "elem (focus_if_any n w) = elem w"
  "query (focus_if_any n w) = query w"
  "doc_keydown (focus_if_any n w) = doc_keydown w"
  "win_keydown (focus_if_any n w) = win_keydown w"
  "innerWidth (focus_if_any n w) = innerWidth w"
  "registry (focus_if_any n w) = registry w"
  "togs (focus_if_any n w) = togs w"
  "next_ref (focus_if_any n w) = next_ref w"
  "resize_subs (focus_if_any n w) = resize_subs w"
  "calls (focus_if_any n w) = calls w"
  "random_src (focus_if_any n w) = random_src w"
  "random_calls (focus_if_any n w) = random_calls w"
  "now (focus_if_any n w) = now w"
  by (simp_all add: focus_if_any_def split: option.split)

lemma acc_handleKeydown_fields [simp]:
  "doc_order (fst (acc_handleKeydown r c w)) = doc_order w"
  "elem (fst (acc_handleKeydown r c w)) = elem w"
  "query (fst (acc_handleKeydown r c w)) = query w"
  "doc_keydown (fst (acc_handleKeydown r c w)) = doc_keydown w"
  "win_keydown (fst (acc_handleKeydown r c w)) = win_keydown w"
  "innerWidth (fst (acc_handleKeydown r c w)) = innerWidth w"
  "registry (fst (acc_handleKeydown r c w)) = registry w"
  "togs (fst (acc_handleKeydown r c w)) = togs w"
  "next_ref (fst (acc_handleKeydown r c w)) = next_ref w"
  "resize_subs (fst (acc_handleKeydown r c w)) = resize_subs w"
  "calls (fst (acc_handleKeydown r c w)) = calls w"
  "random_src (fst (acc_handleKeydown r c w)) = random_src w"
  "random_calls (fst (acc_handleKeydown r c w)) = random_calls w"
  "now (fst (acc_handleKeydown r c w)) = now w"
  by (simp_all add: acc_handleKeydown_def acc_focusPreviousTab_def acc_focusNextTab_def acc_focusFirstTab_def acc_focusLastTab_def Let_def split: option.split)

lemma upd_listeners_fields [simp]:
  "doc_order (upd_listeners n f w) = doc_order w"
  "query (upd_listeners n f w) = query w"
  "activeElement (upd_listeners n f w) = activeElement w"
  "doc_keydown (upd_listeners n f w) = doc_keydown w"
  "win_keydown (upd_listeners n f w) = win_keydown w"
  "innerWidth (upd_listeners n f w) = innerWidth w"
  "registry (upd_listeners n f w) = registry w"
  "accs (upd_listeners n f w) = accs w"
  "togs (upd_listeners n f w) = togs w"
  "next_ref (upd_listeners n f w) = next_ref w"
  "resize_subs (upd_listeners n f w) = resize_subs w"
  "calls (upd_listeners n f w) = calls w"
  "random_src (upd_listeners n f w) = random_src w"
  "random_calls (upd_listeners n f w) = random_calls w"
  "now (upd_listeners n f w) = now w"
  "timers (upd_listeners n f w) = timers w"
  by (simp_all add: upd_listeners_def)

lemma tog_disableBodyScroll_fields [simp]:
  "doc_order (tog_disableBodyScroll r t w) = doc_order w"
  "elem (tog_disableBodyScroll r t w) = elem w"
  "query (tog_disableBodyScroll r t w) = query w"
  "activeElement (tog_disableBodyScroll r t w) = activeElement w"
  "doc_keydown (tog_disableBodyScroll r t w) = doc_keydown w"
  "win_keydown (tog_disableBodyScroll r t w) = win_keydown w"
  "innerWidth (tog_disableBodyScroll r t w) = innerWidth w"
  "registry (tog_disableBodyScroll r t w) = registry w"
  "accs (tog_disableBodyScroll r t w) = accs w"
  "togs (tog_disableBodyScroll r t w) = togs w"
  "next_ref (tog_disableBodyScroll r t w) = next_ref w"
  "resize_subs (tog_disableBodyScroll r t w) = resize_subs w"
  "random_src (tog_disableBodyScroll r t w) = random_src w"
  "random_calls (tog_disableBodyScroll r t w) = random_calls w"
  "now (tog_disableBodyScroll r t w) = now w"
  "timers (tog_disableBodyScroll r t w) = timers w"
  by (simp_all add: tog_disableBodyScroll_def split: option.split)

lemma tog_open_fields [simp]:
  "doc_order (world_of (tog_open r w)) = doc_order w"
  "query (world_of (tog_open r w)) = query w"
  "activeElement (world_of (tog_open r w)) = activeElement w"
  "doc_keydown (world_of (tog_open r w)) = doc_keydown w"
  "win_keydown (world_of (tog_open r w)) = win_keydown w"
  "innerWidth (world_of (tog_open r w)) = innerWidth w"
  "registry (world_of (tog_open r w)) = registry w"
  "accs (world_of (tog_open r w)) = accs w"
  "togs (world_of (tog_open r w)) = togs w"
  "next_ref (world_of (tog_open r w)) = next_ref w"
  "resize_subs (world_of (tog_open r w)) = resize_subs w"
  "random_src (world_of (tog_open r w)) = random_src w"
  "random_calls (world_of (tog_open r w)) = random_calls w"
  "now (world_of (tog_open r w)) = now w"
  by (simp_all add: tog_open_def Let_def split: option.split)

lemma tog_close_fields [simp]:
  "doc_order (world_of (tog_close r w)) = doc_order w"
  "query (world_of (tog_close r w)) = query w"
  "activeElement (world_of (tog_close r w)) = activeElement w"
  "doc_keydown (world_of (tog_close r w)) = doc_keydown w"
  "win_keydown (world_of (tog_close r w)) = win_keydown w"
  "innerWidth (world_of (tog_close r w)) = innerWidth w"
  "registry (world_of (tog_close r w)) = registry w"
  "accs (world_of (tog_close r w)) = accs w"
  "togs (world_of (tog_close r w)) = togs w"
  "next_ref (world_of (tog_close r w)) = next_ref w"
  "resize_subs (world_of (tog_close r w)) = resize_subs w"
  "random_src (world_of (tog_close r w)) = random_src w"
  "random_calls (world_of (tog_close r w)) = random_calls w"
  "now (world_of (tog_close r w)) = now w"
  "timers (world_of (tog_close r w)) = timers w"
  by (simp_all add: tog_close_def Let_def split: option.split)

lemma tog_reset_fields [simp]:
  "doc_order (world_of (tog_reset r w)) = doc_order w"
  "query (world_of (tog_reset r w)) = query w"
  "activeElement (world_of (tog_reset r w)) = activeElement w"
  "doc_keydown (world_of (tog_reset r w)) = doc_keydown w"
  "win_keydown (world_of (tog_reset r w)) = win_keydown w"
  "innerWidth (world_of (tog_reset r w)) = innerWidth w"
  "registry (world_of (tog_reset r w)) = registry w"
  "accs (world_of (tog_reset r w)) = accs w"
  "togs (world_of (tog_reset r w)) = togs w"
  "next_ref (world_of (tog_reset r w)) = next_ref w"
  "resize_subs (world_of (tog_reset r w)) = resize_subs w"
  "random_src (world_of (tog_reset r w)) = random_src w"
  "random_calls (world_of (tog_reset r w)) = random_calls w"
  "now (world_of (tog_reset r w)) = now w"
  by (simp_all add: tog_reset_def Let_def split: option.split)

lemma closeOnEscPress_register_fields [simp]:
  "doc_order (closeOnEscPress_register el w) = doc_order w"
  "elem (closeOnEscPress_register el w) = elem w"
  "query (closeOnEscPress_register el w) = query w"
  "activeElement (closeOnEscPress_register el w) = activeElement w"
  "doc_keydown (closeOnEscPress_register el w) = doc_keydown w"
  "innerWidth (closeOnEscPress_register el w) = innerWidth w"
  "registry (closeOnEscPress_register el w) = registry w"
  "accs (closeOnEscPress_register el w) = accs w"
  "togs (closeOnEscPress_register el w) = togs w"
  "resize_subs (closeOnEscPress_register el w) = resize_subs w"
  "calls (closeOnEscPress_register el w) = calls w"
  "random_src (closeOnEscPress_register el w) = random_src w"
  "random_calls (closeOnEscPress_register el w) = random_calls w"
  "now (closeOnEscPress_register el w) = now w"
  "timers (closeOnEscPress_register el w) = timers w"
  by (simp_all add: closeOnEscPress_register_def)

lemma tog_handleClick_fields [simp]:
  "doc_order (world_of (tog_handleClick r w)) = doc_order w"
  "query (world_of (tog_handleClick r w)) = query w"
  "activeElement (world_of (tog_handleClick r w)) = activeElement w"
  "doc_keydown (world_of (tog_handleClick r w)) = doc_keydown w"
  "win_keydown (world_of (tog_handleClick r w)) = win_keydown w"
  "innerWidth (world_of (tog_handleClick r w)) = innerWidth w"
  "registry (world_of (tog_handleClick r w)) = registry w"
  "accs (world_of (tog_handleClick r w)) = accs w"
  "togs (world_of (tog_handleClick r w)) = togs w"
  "next_ref (world_of (tog_handleClick r w)) = next_ref w"
  "resize_subs (world_of (tog_handleClick r w)) = resize_subs w"
  "random_src (world_of (tog_handleClick r w)) = random_src w"
  "random_calls (world_of (tog_handleClick r w)) = random_calls w"
  "now (world_of (tog_handleClick r w)) = now w"
  by (simp_all add: tog_handleClick_def split: option.split)

lemma blur_timeout_fields [simp]:
  "doc_order (world_of (blur_timeout r w)) = doc_order w"
  "query (world_of (blur_timeout r w)) = query w"
  "activeElement (world_of (blur_timeout r w)) = activeElement w"
  "doc_keydown (world_of (blur_timeout r w)) = doc_keydown w"
  "win_keydown (world_of (blur_timeout r w)) = win_keydown w"
  "innerWidth (world_of (blur_timeout r w)) = innerWidth w"
  "registry (world_of (blur_timeout r w)) = registry w"
  "accs (world_of (blur_timeout r w)) = accs w"
  "togs (world_of (blur_timeout r w)) = togs w"
  "next_ref (world_of (blur_timeout r w)) = next_ref w"
  "resize_subs (world_of (blur_timeout r w)) = resize_subs w"
  "calls (world_of (blur_timeout r w)) = calls w"
  "random_src (world_of (blur_timeout r w)) = random_src w"
  "random_calls (world_of (blur_timeout r w)) = random_calls w"
  "now (world_of (blur_timeout r w)) = now w"
  "timers (world_of (blur_timeout r w)) = timers w"
  by (simp_all add: blur_timeout_def split: option.split)

lemma init_onClick_fields [simp]:
  "doc_order (init_onClick r w) = doc_order w"
  "query (init_onClick r w) = query w"
  "activeElement (init_onClick r w) = activeElement w"
  "doc_keydown (init_onClick r w) = doc_keydown w"
  "win_keydown (init_onClick r w) = win_keydown w"
  "innerWidth (init_onClick r w) = innerWidth w"
  "registry (init_onClick r w) = registry w"
  "accs (init_onClick r w) = accs w"
  "togs (init_onClick r w) = togs w"
  "resize_subs (init_onClick r w) = resize_subs w"
  "calls (init_onClick r w) = calls w"
  "random_src (init_onClick r w) = random_src w"
  "random_calls (init_onClick r w) = random_calls w"
  "now (init_onClick r w) = now w"
  "timers (init_onClick r w) = timers w"
  by (simp_all add: init_onClick_def split: option.split)

lemma init_controls_fields [simp]:
  "doc_order (init_controls r t w) = doc_order w"
  "query (init_controls r t w) = query w"
  "activeElement (init_controls r t w) = activeElement w"
  "doc_keydown (init_controls r t w) = doc_keydown w"
  "win_keydown (init_controls r t w) = win_keydown w"
  "innerWidth (init_controls r t w) = innerWidth w"
  "registry (init_controls r t w) = registry w"
  "accs (init_controls r t w) = accs w"
  "togs (init_controls r t w) = togs w"
  "next_ref (init_controls r t w) = next_ref w"
  "resize_subs (init_controls r t w) = resize_subs w"
  "calls (init_controls r t w) = calls w"
  "random_src (init_controls r t w) = random_src w"
  "now (init_controls r t w) = now w"
  "timers (init_controls r t w) = timers w"
  by (simp_all add: init_controls_def Let_def split_def randomId_def)

lemma init_closeOnBlur_fields [simp]:
  "doc_order (init_closeOnBlur r w) = doc_order w"
  "query (init_closeOnBlur r w) = query w"
  "activeElement (init_closeOnBlur r w) = activeElement w"
  "doc_keydown (init_closeOnBlur r w) = doc_keydown w"
  "win_keydown (init_closeOnBlur r w) = win_keydown w"
  "innerWidth (init_closeOnBlur r w) = innerWidth w"
  "registry (init_closeOnBlur r w) = registry w"
  "accs (init_closeOnBlur r w) = accs w"
  "togs (init_closeOnBlur r w) = togs w"
  "next_ref (init_closeOnBlur r w) = next_ref w"
  "resize_subs (init_closeOnBlur r w) = resize_subs w"
  "calls (init_closeOnBlur r w) = calls w"
  "random_src (init_closeOnBlur r w) = random_src w"
  "random_calls (init_closeOnBlur r w) = random_calls w"
  "now (init_closeOnBlur r w) = now w"
  "timers (init_closeOnBlur r w) = timers w"
  by (simp_all add: init_closeOnBlur_def)

lemma init_closeOnEscPress_fields [simp]:
  "doc_order (init_closeOnEscPress r w) = doc_order w"
  "elem (init_closeOnEscPress r w) = elem w"
  "query (init_closeOnEscPress r w) = query w"
  "activeElement (init_closeOnEscPress r w) = activeElement w"
  "doc_keydown (init_closeOnEscPress r w) = doc_keydown w"
  "innerWidth (init_closeOnEscPress r w) = innerWidth w"
  "registry (init_closeOnEscPress r w) = registry w"
  "accs (init_closeOnEscPress r w) = accs w"
  "togs (init_closeOnEscPress r w) = togs w"
  "resize_subs (init_closeOnEscPress r w) = resize_subs w"
  "calls (init_closeOnEscPress r w) = calls w"
  "random_src (init_closeOnEscPress r w) = random_src w"
  "random_calls (init_closeOnEscPress r w) = random_calls w"
  "now (init_closeOnEscPress r w) = now w"
  "timers (init_closeOnEscPress r w) = timers w"
  by (simp_all add: init_closeOnEscPress_def)

lemma init_hidden_fields [simp]:
  "doc_order (init_hidden r t w) = doc_order w"
  "query (init_hidden r t w) = query w"
  "activeElement (init_hidden r t w) = activeElement w"
  "doc_keydown (init_hidden r t w) = doc_keydown w"
  "win_keydown (init_hidden r t w) = win_keydown w"
  "innerWidth (init_hidden r t w) = innerWidth w"
  "registry (init_hidden r t w) = registry w"
  "accs (init_hidden r t w) = accs w"
  "togs (init_hidden r t w) = togs w"
  "next_ref (init_hidden r t w) = next_ref w"
  "resize_subs (init_hidden r t w) = resize_subs w"
  "calls (init_hidden r t w) = calls w"
  "random_src (init_hidden r t w) = random_src w"
  "random_calls (init_hidden r t w) = random_calls w"
  "now (init_hidden r t w) = now w"
  "timers (init_hidden r t w) = timers w"
  by (simp_all add: init_hidden_def)

lemma init_opened_fields [simp]:
  "doc_order (init_opened r w) = doc_order w"
  "query (init_opened r w) = query w"
  "activeElement (init_opened r w) = activeElement w"
  "doc_keydown (init_opened r w) = doc_keydown w"
  "win_keydown (init_opened r w) = win_keydown w"
  "innerWidth (init_opened r w) = innerWidth w"
  "registry (init_opened r w) = registry w"
  "accs (init_opened r w) = accs w"
  "togs (init_opened r w) = togs w"
  "next_ref (init_opened r w) = next_ref w"
  "resize_subs (init_opened r w) = resize_subs w"
  "random_src (init_opened r w) = random_src w"
  "random_calls (init_opened r w) = random_calls w"
  "now (init_opened r w) = now w"
  by (simp_all add: init_opened_def)

lemma tog_init_fields [simp]:
  "doc_order (snd (tog_init r w)) = doc_order w"
  "query (snd (tog_init r w)) = query w"
  "activeElement (snd (tog_init r w)) = activeElement w"
  "doc_keydown (snd (tog_init r w)) = doc_keydown w"
  "innerWidth (snd (tog_init r w)) = innerWidth w"
  "registry (snd (tog_init r w)) = registry w"
  "accs (snd (tog_init r w)) = accs w"
  "resize_subs (snd (tog_init r w)) = resize_subs w"
  "random_src (snd (tog_init r w)) = random_src w"
  "now (snd (tog_init r w)) = now w"
  by (simp_all add: tog_init_def Let_def split: option.split)

lemma tog_destroy_fields [simp]:
  "doc_order (world_of (tog_destroy r w)) = doc_order w"
  "query (world_of (tog_destroy r w)) = query w"
  "activeElement (world_of (tog_destroy r w)) = activeElement w"
  "doc_keydown (world_of (tog_destroy r w)) = doc_keydown w"
  "win_keydown (world_of (tog_destroy r w)) = win_keydown w"
  "innerWidth (world_of (tog_destroy r w)) = innerWidth w"
  "registry (world_of (tog_destroy r w)) = registry w"
  "accs (world_of (tog_destroy r w)) = accs w"
  "next_ref (world_of (tog_destroy r w)) = next_ref w"
  "resize_subs (world_of (tog_destroy r w)) = resize_subs w"
  "random_src (world_of (tog_destroy r w)) = random_src w"
  "random_calls (world_of (tog_destroy r w)) = random_calls w"
  "now (world_of (tog_destroy r w)) = now w"
  by (simp_all add: tog_destroy_def tog_reset_def Let_def split: option.split outcome.split)

lemma tog_onResize_fields [simp]:
  "doc_order (world_of (tog_onResize r w)) = doc_order w"
  "query (world_of (tog_onResize r w)) = query w"
  "activeElement (world_of (tog_onResize r w)) = activeElement w"
  "doc_keydown (world_of (tog_onResize r w)) = doc_keydown w"
  "innerWidth (world_of (tog_onResize r w)) = innerWidth w"
  "registry (world_of (tog_onResize r w)) = registry w"
  "accs (world_of (tog_onResize r w)) = accs w"
  "resize_subs (world_of (tog_onResize r w)) = resize_subs w"
  "random_src (world_of (tog_onResize r w)) = random_src w"
  "now (world_of (tog_onResize r w)) = now w"
  by (simp_all add: tog_onResize_def Let_def split: option.split)

subsection \<open>The document's keydown listeners\<close>

lemma acc_init_doc_keydown:
  "doc_keydown (world_of (acc_init r w)) = addEventListener AccProtoHandleKeydown (doc_keydown w)"
  by (simp add: acc_init_def Let_def split_def randomId_def set_reach_def split: option.split)

lemma acc_destroy_doc_keydown:
  "doc_keydown (acc_destroy el w) =
     (case getInstance AccordionFamily el w of
        None \<Rightarrow> doc_keydown w
      | Some r \<Rightarrow> addEventListener (AccHandleKeydown r) (doc_keydown w))"
  by (simp add: acc_destroy_def abstract_destroy_def Let_def split: option.split)


section \<open>An example page\<close>

text \<open>
  A page with one accordion group: the root is node 0, the triggers and the panels are
  given as lists.  The style sheets show every element; every trigger carries the class
  that the default trigger selector names, and can take focus.  The viewport is 800 wide.
\<close>

definition blank :: dom_element where
  "blank = \<lparr>el_id = None, data_id = None, classList = [], aria_controls = None,
     aria_expanded = None, aria_labelledby = None, aria_hidden = None, style_display = None,
     sheet_display = ''block'', focusable = False, parentNode = None, listeners = []\<rparr>"

definition no_accordion :: accordion where
  "no_accordion = \<lparr>element = 0, options = acc_defaults, active = False, activePanel = None,
     focus = False, hasReachBreakpoint = None\<rparr>"

definition no_toggle :: toggle where
  "no_toggle = \<lparr>tg_element = 0, settings = tog_defaults, target = None, initialized = False\<rparr>"

definition demo_page :: "node list \<Rightarrow> node list \<Rightarrow> world" where
  "demo_page ts ps = \<lparr>doc_order = 0 # ts @ ps,
     elem = (\<lambda>n. if n \<in> set ts
                 then blank\<lparr>classList := [''accordion__trigger''], focusable := True\<rparr>
                 else blank),
     query = (\<lambda>root sel. if root = 0 \<and> sel = ''.accordion__trigger'' then ts
                          else if root = 0 \<and> sel = ''.accordion__panel'' then ps else []),
     activeElement = None, doc_keydown = [], win_keydown = [], innerWidth = 800,
     registry = (\<lambda>_. None), accs = (\<lambda>_. no_accordion), togs = (\<lambda>_. no_toggle),
     next_ref = 0, resize_subs = [], calls = [], random_src = (\<lambda>n. ''r'' @ show_nat n),
     random_calls = 0, now = 0, timers = []\<rparr>"

definition trigger_el :: "iref \<Rightarrow> string \<Rightarrow> string \<Rightarrow> string \<Rightarrow> dom_element" where
  "trigger_el r i c x = blank\<lparr>el_id := Some i, classList := [''accordion__trigger''],
     aria_controls := Some c, aria_expanded := Some x, focusable := True,
     listeners := [(''click'', AccHandleButtonClick r), (''focus'', AccHandleButtonFocus r),
                   (''blur'', AccHandleButtonBlur r)]\<rparr>"

definition panel_el :: "string \<Rightarrow> string \<Rightarrow> string option \<Rightarrow> dom_element" where
  "panel_el i l d = blank\<lparr>el_id := Some i, aria_labelledby := Some l, style_display := d\<rparr>"

text \<open>The page with two triggers (1, 2) and two panels (3, 4), after \<^verbatim>\<open>new Accordion(root)\<close>.\<close>

definition page2_ready :: world where
  "page2_ready = (demo_page [1, 2] [3, 4])\<lparr>
     elem := (\<lambda>n. if n = 0 then blank\<lparr>data_id := Some ''r0''\<rparr>
        else if n = 1 then trigger_el 0 ''accordion-r0-1'' ''accordion-r0-panel-1'' ''true''
        else if n = 2 then trigger_el 0 ''accordion-r0-2'' ''accordion-r0-panel-2'' ''false''
        else if n = 3 then panel_el ''accordion-r0-panel-1'' ''accordion-r0-1'' None
        else if n = 4 then panel_el ''accordion-r0-panel-2'' ''accordion-r0-2'' None
        else blank),
     doc_keydown := [AccProtoHandleKeydown],
     registry := (\<lambda>k. if k = (AccordionFamily, 0) then Some 0 else None),
     accs := (\<lambda>r. if r = 0
        then \<lparr>element = 0, options = acc_defaults, active = True, activePanel = None,
              focus = False, hasReachBreakpoint = None\<rparr>
        else no_accordion),
     next_ref := 1, resize_subs := [AccHandleResize 0], random_calls := 1\<rparr>"

text \<open>The same page after a click on the first trigger.\<close>

definition page2_one_open :: world where
  "page2_one_open = page2_ready\<lparr>
     elem := (\<lambda>n. if n = 0 then blank\<lparr>data_id := Some ''r0''\<rparr>
        else if n = 1 then trigger_el 0 ''accordion-r0-1'' ''accordion-r0-panel-1'' ''true''
        else if n = 2 then trigger_el 0 ''accordion-r0-2'' ''accordion-r0-panel-2'' ''false''
        else if n = 3 then panel_el ''accordion-r0-panel-1'' ''accordion-r0-1'' (Some ''block'')
        else if n = 4 then panel_el ''accordion-r0-panel-2'' ''accordion-r0-2'' (Some ''none'')
        else blank),
     accs := (\<lambda>r. if r = 0
        then \<lparr>element = 0, options = acc_defaults, active = True, activePanel = Some 3,
              focus = False, hasReachBreakpoint = None\<rparr>
        else no_accordion),
     calls := [OnClose 4, OnOpen 3]\<rparr>"

text \<open>The caller's options when only an \<^verbatim>\<open>onOpen\<close> callback is supplied.\<close>

definition with_onOpen :: acc_overrides where
  "with_onOpen = no_overrides\<lparr>set_onOpen := Some True\<rparr>"

text \<open>
  The page with two triggers (1, 2) and two panels (3, 4) again, where the first panel
  contains a link (5) and the style sheets hide the second panel.  \<^verbatim>\<open>linked_ready\<close> is
  the page after \<^verbatim>\<open>new Accordion(root)\<close>, \<^verbatim>\<open>linked_focused\<close> the page after the first
  trigger has then taken the keyboard focus, and \<^verbatim>\<open>linked_reopened\<close> the page after a
  click on that trigger.
\<close>

definition linked_page :: world where
  "linked_page = (demo_page [1, 2] [3, 4])\<lparr>
     doc_order := [0, 1, 2, 3, 5, 4],
     elem := (\<lambda>n. if n = 1 \<or> n = 2
                 then blank\<lparr>classList := [''accordion__trigger''], focusable := True\<rparr>
                 else if n = 4 then blank\<lparr>sheet_display := ''none''\<rparr>
                 else if n = 5 then blank\<lparr>focusable := True, parentNode := Some 3\<rparr>
                 else blank),
     query := (\<lambda>root sel.
        if root = 0 \<and> sel = ''.accordion__trigger'' then [1, 2]
        else if root = 0 \<and> sel = ''.accordion__panel'' then [3, 4]
        else if root = 0 \<and> sel = FOCUSABLE_ELEMENTS then [1, 2, 5]
        else if root = 3 \<and> sel = FOCUSABLE_ELEMENTS then [5]
        else [])\<rparr>"

definition linked_ready :: world where
  "linked_ready = linked_page\<lparr>
     elem := (\<lambda>n. if n = 0 then blank\<lparr>data_id := Some ''r0''\<rparr>
        else if n = 1 then trigger_el 0 ''accordion-r0-1'' ''accordion-r0-panel-1'' ''true''
        else if n = 2 then trigger_el 0 ''accordion-r0-2'' ''accordion-r0-panel-2'' ''false''
        else if n = 3 then panel_el ''accordion-r0-panel-1'' ''accordion-r0-1'' None
        else if n = 4 then (panel_el ''accordion-r0-panel-2'' ''accordion-r0-2'' None)\<lparr>sheet_display := ''none''\<rparr>
        else if n = 5 then blank\<lparr>focusable := True, parentNode := Some 3\<rparr>
        else blank),
     doc_keydown := [AccProtoHandleKeydown],
     registry := (\<lambda>k. if k = (AccordionFamily, 0) then Some 0 else None),
     accs := (\<lambda>r. if r = 0
        then \<lparr>element = 0, options = acc_defaults, active = True, activePanel = None,
              focus = False, hasReachBreakpoint = None\<rparr>
        else no_accordion),
     next_ref := 1, resize_subs := [AccHandleResize 0], random_calls := 1\<rparr>"

definition linked_focused :: world where
  "linked_focused = linked_ready\<lparr>
     activeElement := Some 1,
     accs := (\<lambda>r. if r = 0
        then \<lparr>element = 0, options = acc_defaults, active = True, activePanel = None,
              focus = True, hasReachBreakpoint = None\<rparr>
        else no_accordion)\<rparr>"

definition linked_reopened :: world where
  "linked_reopened = linked_ready\<lparr>
     elem := (\<lambda>n. if n = 0 then blank\<lparr>data_id := Some ''r0''\<rparr>
        else if n = 1 then trigger_el 0 ''accordion-r0-1'' ''accordion-r0-panel-1'' ''true''
        else if n = 2 then trigger_el 0 ''accordion-r0-2'' ''accordion-r0-panel-2'' ''false''
        else if n = 3 then panel_el ''accordion-r0-panel-1'' ''accordion-r0-1'' (Some ''block'')
        else if n = 4 then (panel_el ''accordion-r0-panel-2'' ''accordion-r0-2'' None)\<lparr>sheet_display := ''none''\<rparr>
        else if n = 5 then blank\<lparr>focusable := True, parentNode := Some 3\<rparr>
        else blank),
     activeElement := Some 5,
     accs := (\<lambda>r. if r = 0
        then \<lparr>element = 0, options = acc_defaults, active = True, activePanel = Some 3,
              focus = False, hasReachBreakpoint = None\<rparr>
        else no_accordion),
     calls := [OnOpen 3]\<rparr>"

text \<open>
  The page with four triggers (1 to 4) and four panels (5 to 8), after
  \<^verbatim>\<open>new Accordion(root)\<close>.
\<close>

definition page4_ready :: world where
  "page4_ready = (demo_page [1, 2, 3, 4] [5, 6, 7, 8])\<lparr>
     elem := (\<lambda>n. if n = 0 then blank\<lparr>data_id := Some ''r0''\<rparr>
        else if n = 1 then trigger_el 0 ''accordion-r0-1'' ''accordion-r0-panel-1'' ''true''
        else if n = 2 then trigger_el 0 ''accordion-r0-2'' ''accordion-r0-panel-2'' ''false''
        else if n = 3 then trigger_el 0 ''accordion-r0-3'' ''accordion-r0-panel-3'' ''false''
        else if n = 4 then trigger_el 0 ''accordion-r0-4'' ''accordion-r0-panel-4'' ''false''
        else if n = 5 then panel_el ''accordion-r0-panel-1'' ''accordion-r0-1'' None
        else if n = 6 then panel_el ''accordion-r0-panel-2'' ''accordion-r0-2'' None
        else if n = 7 then panel_el ''accordion-r0-panel-3'' ''accordion-r0-3'' None
        else if n = 8 then panel_el ''accordion-r0-panel-4'' ''accordion-r0-4'' None
        else blank),
     doc_keydown := [AccProtoHandleKeydown],
     registry := (\<lambda>k. if k = (AccordionFamily, 0) then Some 0 else None),
     accs := (\<lambda>r. if r = 0
        then \<lparr>element = 0, options = acc_defaults, active = True, activePanel = None,
              focus = False, hasReachBreakpoint = None\<rparr>
        else no_accordion),
     next_ref := 1, resize_subs := [AccHandleResize 0], random_calls := 1\<rparr>"

text \<open>A key press, given by its \<^verbatim>\<open>code\<close>.\<close>

definition key_event :: "string \<Rightarrow> keyboardEvent" where
  "key_event c = \<lparr>code = c, key = c, keyCode = 0\<rparr>"

text \<open>
  A page with two groups: the one above under root 0, and a second one under root 5
  with one trigger (6) and one panel (7).  On this page \<^verbatim>\<open>randomId()\<close> returns the same
  string every time.
\<close>

definition two_groups_page :: world where
  "two_groups_page = (demo_page [1, 2] [3, 4])\<lparr>
     doc_order := [0, 1, 2, 3, 4, 5, 6, 7],
     query := (\<lambda>root sel.
        if root = 0 \<and> sel = ''.accordion__trigger'' then [1, 2]
        else if root = 0 \<and> sel = ''.accordion__panel'' then [3, 4]
        else if root = 5 \<and> sel = ''.accordion__trigger'' then [6]
        else if root = 5 \<and> sel = ''.accordion__panel'' then [7]
        else []),
     random_src := (\<lambda>_. ''x'')\<rparr>"

text \<open>
  A page with a menu: under the parent 0 a button (1), the element that the selector
  \<^verbatim>\<open>.menu\<close> finds (2), and a second button (3) that names no target.  The toggle on
  button 1 is configured to close on blur and on Escape and has an \<^verbatim>\<open>onClick\<close>
  callback.  \<^verbatim>\<open>menu_ready\<close> is the page after \<^verbatim>\<open>new Toggle(button, options)\<close>, and
  \<^verbatim>\<open>menu_destroyed\<close> the page after \<^verbatim>\<open>destroy()\<close>.
\<close>

definition menu_page :: world where
  "menu_page = (demo_page [] [])\<lparr>
     doc_order := [0, 1, 2, 3],
     elem := (\<lambda>n. if n = 1 \<or> n = 3 then blank\<lparr>focusable := True, parentNode := Some 0\<rparr>
                 else if n = 2 then blank\<lparr>parentNode := Some 0\<rparr>
                 else blank),
     query := (\<lambda>root sel. if root = 0 \<and> sel = ''.menu'' then [2] else [])\<rparr>"

definition menu_options :: tog_overrides where
  "menu_options = no_tog_overrides\<lparr>set_closeOnBlur := Some True, set_closeOnEscPress := Some True,
     set_onClick := Some (Some 7), set_target_selector := Some (Some ''.menu'')\<rparr>"



definition menu_settings :: tog_settings where
  "menu_settings = tog_defaults\<lparr>closeOnBlur := True, closeOnEscPress := True,
     onClick := Some 7, target_selector := Some ''.menu''\<rparr>"

definition menu_ready :: world where
  "menu_ready = menu_page\<lparr>
     elem := (\<lambda>n. if n = 1 then blank\<lparr>focusable := True, parentNode := Some 0,
                    aria_controls := Some ''toggle-r0'',
                    listeners := [(''click'', TogHandleClick 0), (''click'', TogOnClickBound 1 0 7),
                                  (''blur'', TogHandleBlur 0)]\<rparr>
                 else if n = 2 then blank\<lparr>parentNode := Some 0, el_id := Some ''toggle-r0'',
                    aria_hidden := Some ''true''\<rparr>
                 else if n = 3 then blank\<lparr>focusable := True, parentNode := Some 0\<rparr>
                 else blank),
     win_keydown := [TogEscClosure 2 1],
     registry := (\<lambda>k. if k = (ToggleFamily, 1) then Some 0 else None),
     togs := (\<lambda>r. if r = 0
        then \<lparr>tg_element = 1, settings = menu_settings, target = Some 2, initialized = True\<rparr>
        else no_toggle),
     next_ref := 3, resize_subs := [TogOnResize 0], random_calls := 1\<rparr>"

definition menu_destroyed :: world where
  "menu_destroyed = menu_ready\<lparr>
     elem := (\<lambda>n. if n = 1 then blank\<lparr>focusable := True, parentNode := Some 0,
                    aria_controls := Some ''toggle-r0'',
                    listeners := [(''click'', TogHandleClick 0), (''click'', TogOnClickBound 1 0 7),
                                  (''blur'', TogHandleBlur 0)]\<rparr>
                 else if n = 2 then blank\<lparr>parentNode := Some 0, el_id := Some ''toggle-r0''\<rparr>
                 else if n = 3 then blank\<lparr>focusable := True, parentNode := Some 0\<rparr>
                 else blank),
     togs := (\<lambda>r. if r = 0
        then \<lparr>tg_element = 1, settings = menu_settings, target = Some 2, initialized = False\<rparr>
        else no_toggle)\<rparr>"

lemmas page_defs = demo_page_def blank_def no_accordion_def no_toggle_def trigger_el_def
  panel_el_def acc_defaults_def tog_defaults_def

lemmas dom_defs = upd_def upd_acc_def upd_tog_def upd_listeners_def log_call_def randomId_def
  setTimeout_def set_activeElement_def slideUp_def slideDown_def set_initialized_def
  getElementById_def id_prop_def computed_display_def display_of_def addEventListener_def
  removeEventListener_def or_default_def Let_def

lemmas construct_defs = acc_construct_def abstract_construct_def acc_handleResize_def
  crossing_def query_matches_def acc_init_def set_reach_def merge_options_def no_overrides_def
  acc_close_def init_trigger_def init_panel_def trigger_stem_def panel_stem_def
  probe.simps show_nat.simps digit_char_def str_includes.simps

lemma page2_constructed_with:
  "merge_options acc_defaults ov = acc_defaults \<Longrightarrow>
   acc_construct 0 ov (demo_page [1, 2] [3, 4]) = (0, Done page2_ready)"
  apply (simp add: construct_defs dom_defs page_defs page2_ready_def fun_eq_iff split del: if_split)
  apply (simp add: page_defs)
  done

lemma page2_constructed:
  "acc_construct 0 no_overrides (demo_page [1, 2] [3, 4]) = (0, Done page2_ready)"
  by (rule page2_constructed_with) (simp add: merge_options_def no_overrides_def or_default_def)

lemma page4_constructed:
  "acc_construct 0 no_overrides (demo_page [1, 2, 3, 4] [5, 6, 7, 8]) = (0, Done page4_ready)"
  apply (simp add: construct_defs dom_defs page_defs page4_ready_def fun_eq_iff split del: if_split)
  apply (simp add: page_defs)
  done

lemma page2_clicked: "click 1 page2_ready = page2_one_open"
  apply (simp add: click_def listeners_for_def acc_handleButtonClick.simps acc_open.simps
      acc_close_def acc_isClosed_def expanded_triggers_def FOCUSABLE_ELEMENTS_def
      dom_defs page_defs page2_ready_def page2_one_open_def fun_eq_iff split del: if_split)
  apply (simp add: page_defs)
  done

lemma linked_constructed_with:
  "merge_options acc_defaults ov = acc_defaults \<Longrightarrow>
   acc_construct 0 ov linked_page = (0, Done linked_ready)"
  apply (simp add: construct_defs dom_defs page_defs linked_page_def linked_ready_def fun_eq_iff
      split del: if_split)
  apply (simp add: page_defs)
  done

lemma linked_focus: "focus_node 1 linked_ready = linked_focused"
  apply (simp add: focus_node_def fire_def listeners_for_def acc_handleButtonFocus_def
      set_activeElement_def Let_def page_defs linked_page_def linked_ready_def linked_focused_def
      fun_eq_iff split del: if_split)
  apply (simp add: page_defs)
  done

lemma linked_clicked: "click 1 linked_focused = linked_reopened"
  apply (simp add: click_def listeners_for_def acc_handleButtonClick.simps acc_open.simps
      acc_close_def acc_isClosed_def expanded_triggers_def FOCUSABLE_ELEMENTS_def
      focus_node_def fire_def acc_handleButtonFocus_def acc_handleButtonBlur_def
      dom_defs page_defs linked_page_def linked_ready_def linked_focused_def linked_reopened_def
      fun_eq_iff split del: if_split)
  apply (simp add: page_defs)
  done

lemmas toggle_defs = tog_construct_def abstract_construct_def merge_settings_def tog_defaults_def
  no_tog_overrides_def or_default_def tog_onResize_def tog_init_def init_onClick_def
  init_controls_def init_closeOnBlur_def init_closeOnEscPress_def init_hidden_def init_opened_def
  closeOnEscPress_register_def set_initialized_def upd_tog_def upd_listeners_def upd_def
  randomId_def addEventListener_def removeEventListener_def getElementById_def
  tog_destroy_def tog_reset_def query_matches_def Let_def show_nat.simps digit_char_def


lemma menu_constructed: "tog_construct 1 menu_options menu_page = (0, Done menu_ready)"
  apply (simp add: toggle_defs page_defs menu_page_def menu_options_def menu_ready_def
      menu_settings_def fun_eq_iff split del: if_split)
  apply (simp add: page_defs menu_settings_def)
  done

lemma menu_destroy: "tog_destroy 0 menu_ready = Done menu_destroyed"
  apply (simp add: toggle_defs page_defs menu_page_def menu_destroyed_def menu_ready_def
      menu_settings_def fun_eq_iff split del: if_split)
  apply (simp add: page_defs menu_settings_def)
  done

lemma bare_destroy: "threw (tog_destroy 0 (world_of (snd (tog_construct 3 no_tog_overrides menu_page))))"
  by (simp add: toggle_defs page_defs menu_page_def split del: if_split)


section \<open>The initial layout\<close>

text \<open>
  Claim C4 says that \<^verbatim>\<open>init\<close> hides every panel but the first.  The loop over the
  panels tests \<^verbatim>\<open>index !== 0\<close>, but unlike the loop over the triggers it never
  advances \<^verbatim>\<open>index\<close>, so the test fails for every panel and no panel is hidden.  On
  the page with two triggers and two panels, after construction with the default
  options: the first trigger is expanded and the second is not, as the claim says; but
  the second panel (node 4) has no inline \<^verbatim>\<open>display\<close> and is shown.
\<close>

theorem init_hides_no_panel:
  "(let w = world_of (snd (acc_construct 0 no_overrides (demo_page [1, 2] [3, 4])))
    in aria_expanded (elem w 1) = Some ''true'' \<and> aria_expanded (elem w 2) = Some ''false'' \<and>
       style_display (elem w 4) = None \<and> computed_display w 4 = ''block'')"
  unfolding page2_constructed
  by (simp add: page2_ready_def page_defs computed_display_def display_of_def)

text \<open>
  Claim C1 says that with \<^verbatim>\<open>allowMultiple\<close> off at most one panel is displayed after
  \<^verbatim>\<open>init\<close> and any sequence of clicks, the empty one included.  For the same reason as
  above, right after construction with the default options (\<^verbatim>\<open>allowMultiple\<close> is off)
  the two panels of the page are both displayed.
\<close>

theorem two_panels_displayed_after_init:
  "(let w = world_of (snd (acc_construct 0 no_overrides (demo_page [1, 2] [3, 4])))
    in allowMultiple (options (accs w 0)) = False \<and>
       filter (\<lambda>p. \<not> acc_isClosed w p) (query w 0 ''.accordion__panel'') = [3, 4])"
  unfolding page2_constructed
  by (simp add: page2_ready_def page_defs computed_display_def display_of_def acc_isClosed_def)

section \<open>Identifiers\<close>

text \<open>
  Two worlds have the same identifiers when they list the same elements with the same
  ids.  A document has unique identifiers when it lists every element once and no two
  of its elements carry the same id.
\<close>

definition same_ids :: "world \<Rightarrow> world \<Rightarrow> bool" where
  "same_ids w w' = (doc_order w' = doc_order w \<and> (\<forall>n. el_id (elem w' n) = el_id (elem w n)))"

definition unique_ids :: "world \<Rightarrow> bool" where
  "unique_ids w =
     (distinct (doc_order w) \<and>
      (\<forall>n \<in> set (doc_order w). \<forall>m \<in> set (doc_order w).
         n \<noteq> m \<longrightarrow> el_id (elem w n) = None \<or> el_id (elem w n) \<noteq> el_id (elem w m)))"

lemma same_ids_refl [simp]: "same_ids w w"
  by (simp add: same_ids_def)

lemma same_ids_trans: "same_ids w w' \<Longrightarrow> same_ids w' w'' \<Longrightarrow> same_ids w w''"
  by (simp add: same_ids_def)

lemma same_ids_unique: "same_ids w w' \<Longrightarrow> unique_ids w' = unique_ids w"
  by (simp add: same_ids_def unique_ids_def)

lemma same_ids_getElementById: "same_ids w w' \<Longrightarrow> getElementById w' s = getElementById w s"
  by (simp add: same_ids_def getElementById_def)

lemma same_ids_upd: "(\<And>e. el_id (f e) = el_id e) \<Longrightarrow> same_ids w (upd n f w)"
  by (simp add: same_ids_def)

lemma same_ids_log_call [simp]: "same_ids w (log_call c w)"
  by (simp add: same_ids_def)

lemma same_ids_upd_acc [simp]: "same_ids w (upd_acc r f w)"
  by (simp add: same_ids_def)

lemma unique_ids_fresh:
  assumes "unique_ids w" and "getElementById w s = None" and "s \<noteq> []"
  shows "unique_ids (upd t (\<lambda>e. e\<lparr>el_id := Some s\<rparr>) w)"
proof -
  have free: "el_id (elem w n) \<noteq> Some s" if "n \<in> set (doc_order w)" for n
    using getElementById_None [OF assms(2) that assms(3)] .
  show ?thesis
    using assms(1) free unfolding unique_ids_def
    by (auto simp: fun_upd_def) metis+
qed

lemma unique_ids_removed:
  assumes "unique_ids w" and "\<And>e. el_id (f e) = None"
  shows "unique_ids (upd t f w)"
  using assms unfolding unique_ids_def by (auto simp: fun_upd_def)


declare show_nat_not_Nil [simp]

lemma unique_ids_probed:
  "unique_ids w \<Longrightarrow> unique_ids (upd t (\<lambda>e. e\<lparr>el_id := Some (pre @ show_nat (probe w pre i))\<rparr>) w)"
  by (rule unique_ids_fresh) (simp_all add: probe_free)

lemma unique_ids_upd_other:
  "unique_ids w \<Longrightarrow> (\<And>e. el_id (f e) = el_id e) \<Longrightarrow> unique_ids (upd n f w)"
  using same_ids_unique [OF same_ids_upd] by blast

lemma acc_close_same_ids: "same_ids w (acc_close r p w)"
  by (simp add: acc_close_def same_ids_upd) (simp add: same_ids_def)

lemma unique_ids_acc_close: "unique_ids w \<Longrightarrow> unique_ids (acc_close r p w)"
  using same_ids_unique [OF acc_close_same_ids] by blast

lemma init_trigger_unique: "unique_ids w \<Longrightarrow> unique_ids (init_trigger r pre rid t index w)"
  unfolding init_trigger_def Let_def
  by (intro unique_ids_upd_other unique_ids_probed) simp_all

lemma init_triggers_unique:
  "unique_ids w \<Longrightarrow> unique_ids (init_triggers r pre rid ts index w)"
  by (induction ts arbitrary: index w) (simp_all add: init_trigger_unique)

lemma init_panel_unique:
  assumes "unique_ids w"
  shows "unique_ids (world_of (init_panel r c pre rid ts p index w))"
proof -
  let ?i = "probe w (panel_stem pre rid) (index + 1)"
  let ?w1 = "upd p (\<lambda>e. e\<lparr>el_id := Some (panel_stem pre rid @ show_nat ?i)\<rparr>) w"
  let ?w2 = "upd p (\<lambda>e. e\<lparr>aria_labelledby := Some (trigger_stem pre rid @ show_nat ?i)\<rparr>) ?w1"
  let ?w3 = "if index \<noteq> 0 then upd p (\<lambda>e. e\<lparr>style_display := Some ''none''\<rparr>) ?w2 else ?w2"
  have "unique_ids ?w2"
    by (intro unique_ids_upd_other unique_ids_probed assms) simp
  then have u3: "unique_ids ?w3"
    by (cases "index = 0") (simp_all add: unique_ids_upd_other)
  then have "unique_ids (acc_close r p (upd (ts ! index) (\<lambda>e. e\<lparr>aria_expanded := Some ''false''\<rparr>) ?w3))"
    by (intro unique_ids_acc_close unique_ids_upd_other) simp_all
  with u3 show ?thesis
    unfolding init_panel_def Let_def by (cases "index = 0") simp_all
qed

lemma init_panels_unique:
  "unique_ids w \<Longrightarrow> unique_ids (world_of (init_panels r c pre rid ts ps index w))"
proof (induction ps arbitrary: w)
  case Nil
  then show ?case by simp
next
  case (Cons p ps)
  from Cons.prems have "unique_ids (world_of (init_panel r c pre rid ts p index w))"
    by (rule init_panel_unique)
  then show ?case
    by (cases "init_panel r c pre rid ts p index w") (simp_all add: Cons.IH)
qed


lemma set_reach_document [simp]:
  "doc_order (set_reach r c w) = doc_order w" "elem (set_reach r c w) = elem w"
  by (simp_all add: set_reach_def Let_def split: option.split)

lemma unique_ids_cong:
  "unique_ids w \<Longrightarrow> doc_order w' = doc_order w \<Longrightarrow> (\<And>n. el_id (elem w' n) = el_id (elem w n))
    \<Longrightarrow> unique_ids w'"
  by (simp add: unique_ids_def)

lemma acc_init_unique: "unique_ids w \<Longrightarrow> unique_ids (world_of (acc_init r w))"
  unfolding acc_init_def Let_def split_def
  by (intro init_panels_unique init_triggers_unique, erule unique_ids_cong)
    (simp_all add: randomId_def)

lemma strip_triggers_unique: "unique_ids w \<Longrightarrow> unique_ids (strip_triggers r ts w)"
  by (induction ts arbitrary: w) (simp_all add: unique_ids_removed)

lemma strip_panels_unique: "unique_ids w \<Longrightarrow> unique_ids (strip_panels ps w)"
  by (induction ps arbitrary: w) (simp_all add: unique_ids_removed)

lemma acc_destroy_unique: "unique_ids w \<Longrightarrow> unique_ids (acc_destroy el w)"
proof -
  assume u: "unique_ids w"
  have *: "unique_ids (abstract_destroy f n v\<lparr>doc_keydown := k\<rparr>)" if "unique_ids v" for f n v k
    using that by (simp add: unique_ids_def abstract_destroy_def)
  have **: "unique_ids (abstract_destroy f n v)" if "unique_ids v" for f n v
    using that by (simp add: unique_ids_def abstract_destroy_def)
  show ?thesis
    unfolding acc_destroy_def Let_def
    apply (cases "getInstance AccordionFamily el w")
     apply (simp add: ** u)
    apply (simp add: abstract_destroy_def)
    apply (rule unique_ids_cong [OF strip_panels_unique [OF strip_triggers_unique]])
    apply (rule unique_ids_cong [OF u, of "upd_acc _ _ w"])
    apply simp_all
    done
qed


lemma acc_handleResize_unique: "unique_ids w \<Longrightarrow> unique_ids (world_of (acc_handleResize r w))"
proof -
  assume u: "unique_ids w"
  have step: "unique_ids v \<Longrightarrow> unique_ids (upd_acc r f v)" for v f
    by (erule unique_ids_cong) simp_all
  have logged: "unique_ids v \<Longrightarrow> unique_ids (log_call c v)" for v c
    by (erule unique_ids_cong) simp_all
  show ?thesis
    unfolding acc_handleResize_def Let_def
    by (auto simp: u step logged acc_init_unique acc_destroy_unique split: option.split)
qed

lemma acc_construct_unique: "unique_ids w \<Longrightarrow> unique_ids (world_of (snd (acc_construct el ov w)))"
proof -
  assume u: "unique_ids w"
  have "unique_ids (world_of (acc_handleResize r v))"
    if "doc_order v = doc_order w" and "elem v = elem w" for r v
    by (rule acc_handleResize_unique, rule unique_ids_cong [OF u]) (simp_all add: that)
  then show ?thesis
    unfolding acc_construct_def Let_def abstract_construct_def
    by (auto simp: u split: option.split)
qed


text \<open>What the probing loop returns: the first number from its start on whose
  candidate no element of the document carries.\<close>

lemma probe_first_free:
  "i \<le> probe w pre i \<and> (\<forall>j. i \<le> j \<and> j < probe w pre i \<longrightarrow> getElementById w (pre @ show_nat j) \<noteq> None)"
proof (induction w pre i rule: probe.induct)
  case (1 w pre i)
  show ?case
  proof (cases "getElementById w (pre @ show_nat i) = None")
    case True
    then show ?thesis
      by (subst (1 2) probe.simps) auto
  next
    case False
    with "1.IH" have ih: "Suc i \<le> probe w pre (Suc i)"
      and skipped: "\<And>j. Suc i \<le> j \<Longrightarrow> j < probe w pre (Suc i) \<Longrightarrow> getElementById w (pre @ show_nat j) \<noteq> None"
      by auto
    have eq: "probe w pre i = probe w pre (Suc i)"
      using False by (subst probe.simps) simp
    show ?thesis
      unfolding eq using ih skipped False
      by (metis Suc_leD Suc_leI le_neq_implies_less)
  qed
qed

text \<open>
  Claim C8: identifiers generated by \<^verbatim>\<open>init\<close> are unique within the whole document.
  Every id that \<^verbatim>\<open>init\<close> assigns was probed against the document and carried by no
  element at that moment, so a document whose identifiers are unique keeps unique
  identifiers through the construction of a group, and through the construction of a
  second group on the same page, whatever the two groups' options (the same
  \<^verbatim>\<open>prefixId\<close> included) and whatever \<^verbatim>\<open>randomId()\<close> returns.
\<close>

theorem generated_ids_unique:
  assumes "unique_ids w"
  shows "unique_ids (world_of (snd (acc_construct el1 ov1 w))) \<and>
         unique_ids (world_of (snd (acc_construct el2 ov2 (world_of (snd (acc_construct el1 ov1 w))))))"
  using assms by (simp add: acc_construct_unique)

theorem generated_ids_unique_witness:
  "unique_ids two_groups_page \<and>
   unique_ids (world_of (snd (acc_construct 0 no_overrides two_groups_page))) \<and>
   unique_ids (world_of (snd (acc_construct 5 no_overrides
     (world_of (snd (acc_construct 0 no_overrides two_groups_page))))))"
proof -
  have page: "unique_ids two_groups_page"
    by (simp add: unique_ids_def two_groups_page_def demo_page_def blank_def)
  from page generated_ids_unique [OF page, of 0 no_overrides 5 no_overrides] show ?thesis
    by (rule conjI)
qed

section \<open>The document's keydown listener across init and destroy\<close>

text \<open>
  Claim C3 says that after \<^verbatim>\<open>init(); destroy(); init()\<close> exactly one document-level
  keydown listener of the group is attached, \<^verbatim>\<open>destroy\<close> having removed the one that
  \<^verbatim>\<open>init\<close> registered.  In the code \<^verbatim>\<open>destroy\<close> removes every listener of the triggers
  with \<^verbatim>\<open>removeEventListener\<close>, but for the document it calls
  \<^verbatim>\<open>document.addEventListener('keydown', instance.handleKeydown)\<close>: it registers a
  second function and removes nothing.  On the page with two triggers: after the
  constructor's \<^verbatim>\<open>init\<close> the document has one keydown listener; after \<^verbatim>\<open>destroy\<close>
  it has two, and after the second \<^verbatim>\<open>init\<close> it still has two.
\<close>

theorem destroy_registers_a_second_keydown_listener:
  "doc_keydown (world_of (snd (acc_construct 0 no_overrides (demo_page [1, 2] [3, 4]))))
     = [AccProtoHandleKeydown] \<and>
   doc_keydown (acc_destroy 0 (world_of (snd (acc_construct 0 no_overrides (demo_page [1, 2] [3, 4])))))
     = [AccProtoHandleKeydown, AccHandleKeydown 0] \<and>
   doc_keydown (world_of (acc_init 0
       (acc_destroy 0 (world_of (snd (acc_construct 0 no_overrides (demo_page [1, 2] [3, 4])))))))
     = [AccProtoHandleKeydown, AccHandleKeydown 0]"
  unfolding page2_constructed
  by (simp add: acc_init_doc_keydown acc_destroy_doc_keydown getInstance_def
      page2_ready_def demo_page_def addEventListener_def)

section \<open>Keyboard navigation\<close>

text \<open>
  Claim C7 says that in an active group whose focus sits on a trigger, ArrowDown,
  ArrowUp, Home and End move the focus and suppress the key's default action.
  \<^verbatim>\<open>init\<close> registers \<^verbatim>\<open>this._handleKeydown\<close>, the method of the prototype, and not
  \<^verbatim>\<open>this.handleKeydown\<close>, the function that the constructor bound to the instance.
  Called by the document, the method finds no \<^verbatim>\<open>focus\<close> on its \<^verbatim>\<open>this\<close> and returns.
  On the page with four triggers, freshly constructed, with the focus on the trigger
  of index 2 (node 3): the group is active and knows that a trigger has the focus, and
  each of the four keys leaves the whole state as it is, the focus on node 3 included,
  and the default action is not suppressed.
\<close>

theorem arrow_keys_do_nothing_after_init:
  "active (accs (focus_node 3 (world_of (snd (acc_construct 0 no_overrides (demo_page [1, 2, 3, 4] [5, 6, 7, 8]))))) 0) \<and>
   focus (accs (focus_node 3 (world_of (snd (acc_construct 0 no_overrides (demo_page [1, 2, 3, 4] [5, 6, 7, 8]))))) 0) \<and>
   activeElement (focus_node 3 (world_of (snd (acc_construct 0 no_overrides (demo_page [1, 2, 3, 4] [5, 6, 7, 8]))))) = Some 3 \<and>
   list_all (\<lambda>c.
       keydown (key_event c)
         (focus_node 3 (world_of (snd (acc_construct 0 no_overrides (demo_page [1, 2, 3, 4] [5, 6, 7, 8])))))
       = (focus_node 3 (world_of (snd (acc_construct 0 no_overrides (demo_page [1, 2, 3, 4] [5, 6, 7, 8])))), False))
     [''ArrowDown'', ''ArrowUp'', ''Home'', ''End'']"
proof -
  have "keydown e (focus_node 3 page4_ready) = (focus_node 3 page4_ready, False)" for e
    by (simp add: keydown_def page4_ready_def demo_page_def)
  moreover have "active (accs (focus_node 3 page4_ready) 0) \<and>
      focus (accs (focus_node 3 page4_ready) 0) \<and>
      activeElement (focus_node 3 page4_ready) = Some 3"
    by (simp add: page4_ready_def page_defs focus_node_def fire_def listeners_for_def
        acc_handleButtonFocus_def Let_def)
  ultimately show ?thesis
    unfolding page4_constructed by simp
qed

section \<open>Clicking the open trigger of an exclusive group\<close>

abbreviation collapse :: "dom_element \<Rightarrow> dom_element" where
  "collapse \<equiv> (\<lambda>e. e\<lparr>aria_expanded := Some ''false''\<rparr>)"

abbreviation expand :: "dom_element \<Rightarrow> dom_element" where
  "expand \<equiv> (\<lambda>e. e\<lparr>aria_expanded := Some ''true''\<rparr>)"

lemma upd_same: "f (elem w n) = elem w n \<Longrightarrow> upd n f w = w"
  by (simp add: upd_def)

lemma upd_twice: "upd n f (upd n g w) = upd n (\<lambda>e. f (g e)) w"
  by (simp add: upd_def)

lemma collapse_keeps:
  "id_prop (elem (upd t collapse w) q) = id_prop (elem w q)"
  "aria_controls (elem (upd t collapse w) q) = aria_controls (elem w q)"
  "acc_isClosed (upd t collapse w) q = acc_isClosed w q"
  by (simp_all add: id_prop_def acc_isClosed_def computed_display_def display_of_def split: option.split)

lemma close_other_panels_closed:
  assumes "\<forall>q \<in> set ps. Some (id_prop (elem w q)) \<noteq> aria_controls (elem w t) \<longrightarrow> acc_isClosed w q"
  shows "close_other_panels r opts (Some t) ps w = w \<or>
         close_other_panels r opts (Some t) ps w = upd t collapse w"
  using assms
proof (induction ps arbitrary: w)
  case Nil
  then show ?case by simp
next
  case (Cons q ps)
  show ?case
  proof (cases "Some (id_prop (elem w q)) \<noteq> aria_controls (elem w t)")
    case False
    with Cons.IH [of w] Cons.prems show ?thesis by simp
  next
    case True
    with Cons.prems have closed: "acc_isClosed w q" by simp
    have "\<forall>q' \<in> set ps. Some (id_prop (elem (upd t collapse w) q')) \<noteq> aria_controls (elem (upd t collapse w) t)
            \<longrightarrow> acc_isClosed (upd t collapse w) q'"
      unfolding collapse_keeps using Cons.prems by simp
    from Cons.IH [OF this]
    have "close_other_panels r opts (Some t) ps (upd t collapse w) = upd t collapse w"
      by (simp add: upd_twice)
    with True closed show ?thesis
      unfolding close_other_panels.simps Let_def
      by (simp only: option.case collapse_keeps if_True if_False not_not simp_thms)
  qed
qed

lemma focus_node_activePanel [simp]: "activePanel (accs (focus_node f w) r) = activePanel (accs w r)"
proof -
  have step: "activePanel (accs (on_focus_blur l v) r) = activePanel (accs v r)" for l v
    by (cases l) (simp_all add: acc_handleButtonFocus_def acc_handleButtonBlur_def tog_handleBlur_def)
  have fired: "activePanel (accs (fire ev n v) r) = activePanel (accs v r)" for ev n v
    unfolding fire_def by (rule foldl_keeps) (rule step)
  show ?thesis
    by (simp add: focus_node_def Let_def fired split: option.split)
qed

text \<open>
  Claim C2 says that with \<^verbatim>\<open>forceExpand\<close> on and \<^verbatim>\<open>allowMultiple\<close> off a click on
  the single open trigger is a no-op: the expanded-states, the visibility of the panels
  and the keyboard focus are as before, and no callback is invoked.  The handler has no
  such case: a click that may not collapse the trigger takes the branch that opens its
  panel.  On the page whose first panel contains a link, constructed with an \<^verbatim>\<open>onOpen\<close>
  callback and with the focus on the first trigger, the first trigger is the only
  expanded one and its panel the only displayed one; a click on that trigger invokes
  \<^verbatim>\<open>onOpen\<close>, moves the keyboard focus from the trigger to the link, and gives the panel
  an inline display that it did not have.
\<close>

theorem reclick_invokes_onOpen:
  "focus_node 1 (world_of (snd (acc_construct 0 with_onOpen linked_page))) = linked_focused \<and>
   forceExpand (options (accs linked_focused 0)) \<and>
   \<not> allowMultiple (options (accs linked_focused 0)) \<and>
   expanded_triggers linked_focused 0 ''.accordion__trigger'' = [1] \<and>
   filter (\<lambda>p. \<not> acc_isClosed linked_focused p) (query linked_focused 0 ''.accordion__panel'') = [3] \<and>
   calls linked_focused = [] \<and>
   activeElement linked_focused = Some 1 \<and>
   style_display (elem linked_focused 3) = None \<and>
   calls (click 1 linked_focused) = [OnOpen 3] \<and>
   activeElement (click 1 linked_focused) = Some 5 \<and>
   style_display (elem (click 1 linked_focused) 3) = Some ''block''"
proof -
  have "acc_construct 0 with_onOpen linked_page = (0, Done linked_ready)"
    by (rule linked_constructed_with)
      (simp add: merge_options_def with_onOpen_def no_overrides_def or_default_def acc_defaults_def)
  then have "focus_node 1 (world_of (snd (acc_construct 0 with_onOpen linked_page))) = linked_focused"
    by (simp only: snd_conv world_of.simps linked_focus)
  moreover have "click 1 linked_focused = linked_reopened"
    by (rule linked_clicked)
  ultimately show ?thesis
    by (simp add: expanded_triggers_def acc_isClosed_def computed_display_def display_of_def
        linked_reopened_def linked_focused_def linked_ready_def linked_page_def page_defs)
qed

text \<open>
  Claim C2 as amended.  The group has \<^verbatim>\<open>forceExpand\<close> on and \<^verbatim>\<open>allowMultiple\<close> off.  The
  trigger \<open>t\<close> and the panel \<open>p\<close> are wired to each other as \<^verbatim>\<open>init\<close> wires them: the
  \<^verbatim>\<open>aria-controls\<close> of \<open>t\<close> names \<open>p\<close> and the \<^verbatim>\<open>aria-labelledby\<close> of \<open>p\<close> names \<open>t\<close>.  The
  trigger is expanded, its panel is displayed, and every other panel of the group is
  hidden.  Then a click on \<open>t\<close> leaves the expanded-state and the visibility of every
  element as they were and invokes no \<^verbatim>\<open>onClose\<close>; but it runs \<^verbatim>\<open>open\<close> on the panel
  again: the inline display of the panel is set to \<^verbatim>\<open>block\<close>, and nothing else changes in
  any element; \<^verbatim>\<open>onOpen\<close> is invoked once with the panel (when configured); the panel
  becomes the group's active panel; and the keyboard focus moves to the panel's first
  focusable descendant when there is one that can take focus, and stays where it is
  otherwise.
\<close>

theorem click_on_the_open_trigger:
  assumes exclusive: "forceExpand (options (accs w r))" "\<not> allowMultiple (options (accs w r))"
    and controls: "aria_controls (elem w t) = Some c" "c \<noteq> []" "getElementById w c = Some p"
    and labelled: "aria_labelledby (elem w p) = Some lb" "lb \<noteq> []" "getElementById w lb = Some t"
    and expanded: "aria_expanded (elem w t) = Some ''true''"
    and shown: "\<not> acc_isClosed w p"
    and others: "\<forall>q \<in> set (query w (element (accs w r)) (panelSelector (options (accs w r)))).
                   id_prop (elem w q) \<noteq> c \<longrightarrow> acc_isClosed w q"
  shows "(\<forall>n. aria_expanded (elem (acc_handleButtonClick r t w) n) = aria_expanded (elem w n)) \<and>
         (\<forall>n. acc_isClosed (acc_handleButtonClick r t w) n = acc_isClosed w n) \<and>
         calls (acc_handleButtonClick r t w) =
           calls w @ (if onOpen (options (accs w r)) then [OnOpen p] else []) \<and>
         style_display (elem (acc_handleButtonClick r t w) p) = Some ''block'' \<and>
         elem (acc_handleButtonClick r t w) =
           (elem w)(p := (elem w p)\<lparr>style_display := Some ''block''\<rparr>) \<and>
         activePanel (accs (acc_handleButtonClick r t w) r) = Some p \<and>
         activeElement (acc_handleButtonClick r t w) =
           (case query w p FOCUSABLE_ELEMENTS of
              [] \<Rightarrow> activeElement w
            | f # _ \<Rightarrow> if focusable (elem w f) then Some f else activeElement w)"
proof -
  let ?opts = "options (accs w r)"
  let ?w1 = "close_other_panels r ?opts (Some t) (query w (element (accs w r)) (panelSelector ?opts)) w"
  have "?w1 = w \<or> ?w1 = upd t collapse w"
    using others controls(1) by (intro close_other_panels_closed) simp
  moreover have "upd t expand w = w"
    using expanded by (intro upd_same) simp
  moreover have "upd t expand (upd t collapse w) = w"
    using expanded by (simp add: upd_twice upd_same)
  ultimately have restored: "upd t expand ?w1 = w"
    by metis
  have click: "acc_handleButtonClick r t w =
      (let w3 = acc_open r (Some p) w in if onOpen ?opts then log_call (OnOpen p) w3 else w3)"
    using exclusive controls labelled restored
    by (simp add: acc_handleButtonClick.simps Let_def)
  let ?first = "case query w p FOCUSABLE_ELEMENTS of [] \<Rightarrow> None | f # _ \<Rightarrow> Some f"
  let ?w3 = "focus_if_any ?first
    (upd p (\<lambda>e. e\<lparr>style_display := Some ''block''\<rparr>) (upd_acc r (\<lambda>a. a\<lparr>activePanel := Some p\<rparr>) w))"
  have display: "display_of (elem w p) \<noteq> ''none''"
    using shown by (simp add: acc_isClosed_def computed_display_def)
  then have opened: "acc_open r (Some p) w = ?w3"
    by (simp add: acc_open.simps Let_def focus_if_any_def computed_display_def)
  have elems: "elem ?w3 = (elem w)(p := (elem w p)\<lparr>style_display := Some ''block''\<rparr>)"
    by (simp add: focus_if_any_def split: option.split)
  have "aria_expanded (elem ?w3 n) = aria_expanded (elem w n)" for n
    unfolding elems by simp
  moreover have "acc_isClosed ?w3 n = acc_isClosed w n" for n
    using display unfolding acc_isClosed_def computed_display_def elems
    by (cases "n = p") (simp_all add: display_of_def)
  moreover have "calls ?w3 = calls w"
    by (simp add: focus_if_any_def split: option.split)
  moreover have "style_display (elem ?w3 p) = Some ''block''"
    unfolding elems by simp
  moreover have "activePanel (accs ?w3 r) = Some p"
    by (simp add: focus_if_any_def split: option.split)
  moreover have "activeElement ?w3 =
      (case query w p FOCUSABLE_ELEMENTS of
         [] \<Rightarrow> activeElement w
       | f # _ \<Rightarrow> if focusable (elem w f) then Some f else activeElement w)"
    by (auto simp add: focus_if_any_def focus_node_activeElement split: list.split)
  ultimately show ?thesis
    unfolding click opened using elems by (simp add: Let_def acc_isClosed_def computed_display_def)
qed

theorem click_on_the_open_trigger_witness:
  "forceExpand (options (accs linked_focused 0)) \<and>
   \<not> allowMultiple (options (accs linked_focused 0)) \<and>
   aria_controls (elem linked_focused 1) = Some ''accordion-r0-panel-1'' \<and>
   getElementById linked_focused ''accordion-r0-panel-1'' = Some 3 \<and>
   aria_labelledby (elem linked_focused 3) = Some ''accordion-r0-1'' \<and>
   getElementById linked_focused ''accordion-r0-1'' = Some 1 \<and>
   aria_expanded (elem linked_focused 1) = Some ''true'' \<and>
   \<not> acc_isClosed linked_focused 3 \<and>
   query linked_focused 0 ''.accordion__panel'' = [3, 4] \<and>
   acc_isClosed linked_focused 4 \<and>
   query linked_focused 3 FOCUSABLE_ELEMENTS = [5] \<and>
   activeElement linked_focused = Some 1 \<and>
   style_display (elem linked_focused 3) = None \<and>
   (\<forall>n. aria_expanded (elem (acc_handleButtonClick 0 1 linked_focused) n) = aria_expanded (elem linked_focused n)) \<and>
   (\<forall>n. acc_isClosed (acc_handleButtonClick 0 1 linked_focused) n = acc_isClosed linked_focused n) \<and>
   calls (acc_handleButtonClick 0 1 linked_focused) = [OnOpen 3] \<and>
   style_display (elem (acc_handleButtonClick 0 1 linked_focused) 3) = Some ''block'' \<and>
   elem (acc_handleButtonClick 0 1 linked_focused) =
     (elem linked_focused)(3 := (elem linked_focused 3)\<lparr>style_display := Some ''block''\<rparr>) \<and>
   activePanel (accs (acc_handleButtonClick 0 1 linked_focused) 0) = Some 3 \<and>
   activeElement (acc_handleButtonClick 0 1 linked_focused) = Some 5"
proof -
  have h: "forceExpand (options (accs linked_focused 0))"
    "\<not> allowMultiple (options (accs linked_focused 0))"
    "aria_controls (elem linked_focused 1) = Some ''accordion-r0-panel-1''"
    "''accordion-r0-panel-1'' \<noteq> []"
    "getElementById linked_focused ''accordion-r0-panel-1'' = Some 3"
    "aria_labelledby (elem linked_focused 3) = Some ''accordion-r0-1''"
    "''accordion-r0-1'' \<noteq> []"
    "getElementById linked_focused ''accordion-r0-1'' = Some 1"
    "aria_expanded (elem linked_focused 1) = Some ''true''"
    "\<not> acc_isClosed linked_focused 3"
    by (simp_all add: linked_focused_def linked_ready_def linked_page_def page_defs getElementById_def
        acc_isClosed_def computed_display_def display_of_def)
  have panels: "query linked_focused 0 ''.accordion__panel'' = [3, 4]"
    and closed: "acc_isClosed linked_focused 4"
    and link: "query linked_focused 3 FOCUSABLE_ELEMENTS = [5]" "focusable (elem linked_focused 5)"
    and configured: "onOpen (options (accs linked_focused 0))"
    and before: "calls linked_focused = []" "activeElement linked_focused = Some 1"
      "style_display (elem linked_focused 3) = None"
    by (simp_all add: linked_focused_def linked_ready_def linked_page_def page_defs
        acc_isClosed_def computed_display_def display_of_def)
  have others: "\<forall>q \<in> set (query linked_focused (element (accs linked_focused 0))
        (panelSelector (options (accs linked_focused 0)))).
      id_prop (elem linked_focused q) \<noteq> ''accordion-r0-panel-1'' \<longrightarrow> acc_isClosed linked_focused q"
    by (simp add: linked_focused_def linked_ready_def linked_page_def page_defs id_prop_def
        acc_isClosed_def computed_display_def display_of_def)
  from click_on_the_open_trigger [OF h others] h panels closed link configured before
  show ?thesis
    by simp
qed

section \<open>Constructing twice on one node\<close>

lemma acc_handleResize_inactive_registry:
  "\<not> active (accs w r) \<Longrightarrow> registry (world_of (acc_handleResize r w)) = registry w"
  by (simp add: acc_handleResize_def Let_def split: option.split)

lemma acc_construct_registered:
  "registry (world_of (snd (acc_construct el ov w))) (AccordionFamily, el) = Some (fst (acc_construct el ov w))"
  by (simp add: acc_construct_def abstract_construct_def Let_def acc_handleResize_inactive_registry
      split: option.split)

lemma tog_construct_registered:
  "registry (world_of (snd (tog_construct el ov w))) (ToggleFamily, el) = Some (fst (tog_construct el ov w))"
  by (simp add: tog_construct_def abstract_construct_def Let_def split: option.split)

text \<open>
  Claim C5: constructing a widget a second time on the same node gives the instance
  of the first construction, and the second call's options change nothing.  The
  registry is the one described by the spec (the base class is not among the sources);
  the constructors of \<^verbatim>\<open>Accordion\<close> and \<^verbatim>\<open>Toggle\<close> are the sources'.  Whatever the
  first construction did, the second evaluates to the same reference and leaves the
  whole world, the first instance's resolved options included, as it was.
\<close>

theorem second_construction_returns_the_instance:
  "acc_construct el ov' (world_of (snd (acc_construct el ov w)))
     = (fst (acc_construct el ov w), Done (world_of (snd (acc_construct el ov w)))) \<and>
   tog_construct el tv' (world_of (snd (tog_construct el tv w)))
     = (fst (tog_construct el tv w), Done (world_of (snd (tog_construct el tv w))))"
proof
  show "acc_construct el ov' (world_of (snd (acc_construct el ov w)))
     = (fst (acc_construct el ov w), Done (world_of (snd (acc_construct el ov w))))"
    using acc_construct_registered [of el ov w]
    by (simp add: acc_construct_def [of el ov'] abstract_construct_def)
  show "tog_construct el tv' (world_of (snd (tog_construct el tv w)))
     = (fst (tog_construct el tv w), Done (world_of (snd (tog_construct el tv w))))"
    using tog_construct_registered [of el tv w]
    by (simp add: tog_construct_def [of el tv'] abstract_construct_def)
qed


section \<open>Crossing the breakpoint\<close>

text \<open>
  The query \<^verbatim>\<open>(min-width: 768px)\<close>, as \<^verbatim>\<open>window.matchMedia\<close> gives it: it matches when the
  viewport is at least 768 wide.
\<close>

definition min_width_768 :: mediaQueryList where
  "min_width_768 = \<lparr>media = ''(min-width: 768px)'', matches_at = (\<lambda>width. 768 \<le> width)\<rparr>"

text \<open>The arguments of the invocations of \<^verbatim>\<open>onReachBreakpoint\<close> so far, in order.\<close>

definition breakpoint_calls :: "world \<Rightarrow> bool list" where
  "breakpoint_calls w = concat (map (\<lambda>c. case c of OnReachBreakpoint b \<Rightarrow> [b] | _ \<Rightarrow> []) (calls w))"



text \<open>
  A group that is the page's only subscriber to resize notifications, has the query
  and a callback configured, and was last seen on the given side of the breakpoint:
  above it the group is active and registered, below it the group is not active.
\<close>

definition settled :: "iref \<Rightarrow> reach \<Rightarrow> world \<Rightarrow> bool" where
  "settled r side w =
     (resize_subs w = [AccHandleResize r] \<and>
      active (accs w r) = (side = Above) \<and>
      (side = Above \<longrightarrow> registry w (AccordionFamily, element (accs w r)) = Some r) \<and>
      hasReachBreakpoint (accs w r) = Some side \<and>
      mediaQuery (options (accs w r)) = Some min_width_768 \<and>
      onReachBreakpoint (options (accs w r)))"

lemma min_width_768_text [simp]:
  "has_digits (media min_width_768)"
  "parseInt (first_digits (media min_width_768)) = 768"
  "str_includes (media min_width_768) ''min''"
  "\<not> str_includes (media min_width_768) ''max''"
  "matches_at min_width_768 x = (768 \<le> x)"
  by (simp_all add: min_width_768_def has_digits_def first_digits_def parseInt_def is_digit_def)

lemma breakpoint_calls_log:
  "breakpoint_calls (log_call c w) =
     breakpoint_calls w @ (case c of OnReachBreakpoint b \<Rightarrow> [b] | _ \<Rightarrow> [])"
  by (simp add: breakpoint_calls_def log_call_def)

lemma breakpoint_calls_keeps [simp]:
  "breakpoint_calls (upd n f w) = breakpoint_calls w"
  "breakpoint_calls (upd_acc r g w) = breakpoint_calls w"
  "breakpoint_calls (set_reach r c w) = breakpoint_calls w"
  "breakpoint_calls (init_triggers r pre rid ts index w) = breakpoint_calls w"
  "breakpoint_calls (acc_destroy el w) = breakpoint_calls w"
  "breakpoint_calls (w\<lparr>doc_keydown := ks\<rparr>) = breakpoint_calls w"
  "breakpoint_calls (w\<lparr>random_calls := k\<rparr>) = breakpoint_calls w"
  "breakpoint_calls (w\<lparr>innerWidth := x\<rparr>) = breakpoint_calls w"
  "breakpoint_calls (w\<lparr>accs := a\<rparr>) = breakpoint_calls w"
  "breakpoint_calls (w\<lparr>resize_subs := s\<rparr>) = breakpoint_calls w"
  "breakpoint_calls (w\<lparr>registry := g', next_ref := k\<rparr>) = breakpoint_calls w"
  by (simp_all add: breakpoint_calls_def)

lemma breakpoint_calls_acc_close [simp]: "breakpoint_calls (acc_close r p w) = breakpoint_calls w"
  by (simp add: acc_close_def slideUp_def breakpoint_calls_log)

lemma breakpoint_calls_init_panel [simp]:
  "breakpoint_calls (world_of (init_panel r c pre rid ts p index w)) = breakpoint_calls w"
  by (simp add: init_panel_def Let_def)

lemma breakpoint_calls_init_panels [simp]:
  "breakpoint_calls (world_of (init_panels r c pre rid ts ps index w)) = breakpoint_calls w"
proof (induction ps arbitrary: w)
  case Nil
  show ?case by simp
next
  case (Cons p ps)
  show ?case
  proof (cases "init_panel r c pre rid ts p index w")
    case (Done v)
    with Cons.IH [of v] breakpoint_calls_init_panel [of r c pre rid ts p index w]
    show ?thesis by simp
  next
    case (Threw v)
    with breakpoint_calls_init_panel [of r c pre rid ts p index w]
    show ?thesis by simp
  qed
qed

lemma breakpoint_calls_acc_init [simp]:
  "breakpoint_calls (world_of (acc_init r w)) = breakpoint_calls w"
  by (simp add: acc_init_def Let_def split_def randomId_def breakpoint_calls_log)










text \<open>
  The code takes a viewport of exactly 768 to be below the breakpoint (\<^verbatim>\<open>init\<close> compares
  with \<^verbatim>\<open>>\<close>, \<^verbatim>\<open>_handleResize\<close> with \<^verbatim>\<open><=\<close>), while the query still matches there: a
  resize from above to exactly 768 invokes the callback with \<^verbatim>\<open>true\<close>.
\<close>

lemma resize_to_the_threshold:
  assumes "settled r Above v"
  shows "breakpoint_calls (resize 768 v) = breakpoint_calls v @ [True]"
proof -
  let ?v1 = "log_call (OnReachBreakpoint True)
    (upd_acc r (\<lambda>a. a\<lparr>hasReachBreakpoint := Some Below\<rparr>) (v\<lparr>innerWidth := 768\<rparr>))"
  have "resize 768 v = ?v1"
    using assms
    by (simp add: settled_def resize_def acc_handleResize_def crossing_def query_matches_def
        Let_def upd_acc_def log_call_def)
  then show ?thesis
    by (simp add: breakpoint_calls_log)
qed



section \<open>Destroying a toggle\<close>

text \<open>
  Claim C9 says that \<^verbatim>\<open>destroy\<close> detaches every listener that \<^verbatim>\<open>init\<close> attached, strips
  the ARIA wiring and is safe in any state.  On the menu page, \<^verbatim>\<open>init\<close> attaches three
  listeners to the button and one keydown listener to the window, and generates the
  \<^verbatim>\<open>aria-controls\<close>/\<^verbatim>\<open>id\<close> pair.  When an \<^verbatim>\<open>onClick\<close> is configured, \<^verbatim>\<open>destroy\<close> removes
  only \<^verbatim>\<open>onClick\<close> itself, which \<^verbatim>\<open>init\<close> did not attach on this path; the arrow function
  of \<^verbatim>\<open>_closeOnEscPress\<close> is never removed.  After \<^verbatim>\<open>destroy\<close> the widget is
  uninitialized, but all four listeners and the generated pair are still there.  And
  on the button without a target, \<^verbatim>\<open>destroy\<close> throws.
\<close>

theorem destroy_leaves_listeners_attached:
  "tog_construct 1 menu_options menu_page = (0, Done menu_ready) \<and>
   tog_destroy 0 menu_ready = Done menu_destroyed \<and>
   listeners (elem menu_ready 1) =
     [(''click'', TogHandleClick 0), (''click'', TogOnClickBound 1 0 7), (''blur'', TogHandleBlur 0)] \<and>
   win_keydown menu_ready = [TogEscClosure 2 1] \<and>
   \<not> initialized (togs menu_destroyed 0) \<and>
   listeners (elem menu_destroyed 1) = listeners (elem menu_ready 1) \<and>
   win_keydown menu_destroyed = win_keydown menu_ready \<and>
   aria_controls (elem menu_destroyed 1) = Some ''toggle-r0'' \<and>
   el_id (elem menu_destroyed 2) = Some ''toggle-r0'' \<and>
   threw (tog_destroy 0 (world_of (snd (tog_construct 3 no_tog_overrides menu_page))))"
  using menu_constructed menu_destroy bare_destroy
  by (simp add: menu_destroyed_def menu_ready_def menu_page_def page_defs)

section \<open>The toggle's blur timeout\<close>

text \<open>
  What can happen on the page while a timeout is pending: a millisecond passes, a script
  calls \<^verbatim>\<open>open()\<close>, \<^verbatim>\<open>close()\<close> or \<^verbatim>\<open>destroy()\<close> on a toggle, an element takes the focus,
  the user clicks on an element, presses a key or resizes the window.
\<close>

datatype action =
    Wait
  | CallOpen iref
  | CallClose iref
  | CallDestroy iref
  | FocusOn node
  | ClickOn node
  | Press keyboardEvent
  | ResizeTo nat

fun act :: "action \<Rightarrow> world \<Rightarrow> world" where
  "act Wait w = tick w"
| "act (CallOpen r) w = world_of (tog_open r w)"
| "act (CallClose r) w = world_of (tog_close r w)"
| "act (CallDestroy r) w = world_of (tog_destroy r w)"
| "act (FocusOn n) w = focus_node n w"
| "act (ClickOn n) w = click n w"
| "act (Press e) w = fst (keydown e w)"
| "act (ResizeTo width) w = resize width w"

definition run :: "action list \<Rightarrow> world \<Rightarrow> world" where
  "run as w = foldl (\<lambda>v a. act a v) w as"

text \<open>The milliseconds that pass during a sequence of actions.\<close>

fun elapsed :: "action list \<Rightarrow> nat" where
  "elapsed [] = 0"
| "elapsed (Wait # as) = Suc (elapsed as)"
| "elapsed (a # as) = elapsed as"

text \<open>Nothing happens for \<open>n\<close> milliseconds.\<close>

definition idle :: "nat \<Rightarrow> action list" where
  "idle n = replicate n Wait"

text \<open>
  From \<open>w\<close> to \<open>v\<close> no time has passed, the toggle \<open>r\<close> has kept its element and its
  target, and every callback that was queued is still queued.
\<close>

definition carries :: "iref \<Rightarrow> world \<Rightarrow> world \<Rightarrow> bool" where
  "carries r w v =
     (now v = now w \<and> tg_element (togs v r) = tg_element (togs w r) \<and>
      target (togs v r) = target (togs w r) \<and> set (timers w) \<subseteq> set (timers v))"

lemma carries_refl [simp]: "carries r w w"
  by (simp add: carries_def)

lemma carries_trans: "carries r w v \<Longrightarrow> carries r v u \<Longrightarrow> carries r w u"
  by (auto simp add: carries_def)

lemma carries_step:
  "carries r w v \<Longrightarrow> now u = now v \<Longrightarrow> tg_element (togs u r) = tg_element (togs v r) \<Longrightarrow>
   target (togs u r) = target (togs v r) \<Longrightarrow> set (timers v) \<subseteq> set (timers u) \<Longrightarrow> carries r w u"
  by (auto simp add: carries_def)

lemma carries_foldl:
  assumes "\<And>v x. carries r w v \<Longrightarrow> carries r w (f v x)"
  shows "carries r w v \<Longrightarrow> carries r w (foldl f v xs)"
  by (induction xs arbitrary: v) (simp_all add: assms)

lemma carries_basic [simp]:
  "carries r w v \<Longrightarrow> carries r w (upd n f v)"
  "carries r w v \<Longrightarrow> carries r w (log_call c v)"
  "carries r w v \<Longrightarrow> carries r w (upd_acc q g v)"
  "carries r w v \<Longrightarrow> carries r w (upd_listeners n h v)"
  "carries r w v \<Longrightarrow> carries r w (set_initialized q b v)"
  "carries r w v \<Longrightarrow> carries r w (set_activeElement n v)"
  "carries r w v \<Longrightarrow> carries r w (setTimeout k d v)"
  "carries r w v \<Longrightarrow> carries r w (slideUp n v)"
  "carries r w v \<Longrightarrow> carries r w (slideDown n c' v)"
  "carries r w v \<Longrightarrow> carries r w (acc_close q n v)"
  "carries r w v \<Longrightarrow> carries r w (acc_handleButtonFocus q v)"
  "carries r w v \<Longrightarrow> carries r w (acc_handleButtonBlur q v)"
  "carries r w v \<Longrightarrow> carries r w (tog_handleBlur q v)"
  "carries r w v \<Longrightarrow> carries r w (tog_disableBodyScroll q n v)"
  "carries r w v \<Longrightarrow> carries r w (closeOnEscPress_register n v)"
  "carries r w v \<Longrightarrow> carries r w (close_other_panels q opts t ps v)"
  "carries r w v \<Longrightarrow> carries r w (acc_destroy n v)"
  "carries r w v \<Longrightarrow> carries r w (world_of (acc_init q v))"
  "carries r w v \<Longrightarrow> carries r w (world_of (acc_handleResize q v))"
  "carries r w v \<Longrightarrow> carries r w (world_of (blur_timeout q v))"
  "carries r w v \<Longrightarrow> carries r w (v\<lparr>innerWidth := x\<rparr>)"
  "carries r w v \<Longrightarrow> carries r w (v\<lparr>next_ref := j\<rparr>)"
  "carries r w v \<Longrightarrow> carries r w (v\<lparr>random_calls := j\<rparr>)"
  by (auto simp add: carries_def set_initialized_def tog_handleBlur_def slideDown_def
      split: option.split)


lemma carries_on_focus_blur [simp]: "carries r w v \<Longrightarrow> carries r w (on_focus_blur l v)"
  by (cases l) simp_all

lemma carries_fire [simp]: "carries r w v \<Longrightarrow> carries r w (fire ev n v)"
  unfolding fire_def by (erule carries_foldl [rotated]) simp

lemma carries_focus_node [simp]: "carries r w v \<Longrightarrow> carries r w (focus_node n v)"
  by (simp add: focus_node_def Let_def split: option.split)

lemma carries_focus_if_any [simp]: "carries r w v \<Longrightarrow> carries r w (focus_if_any m v)"
  by (simp add: focus_if_any_def split: option.split)

lemma carries_acc_open [simp]: "carries r w v \<Longrightarrow> carries r w (acc_open q p v)"
  by (cases p) (simp_all add: acc_open.simps Let_def split: list.split)

lemma carries_acc_handleButtonClick [simp]:
  "carries r w v \<Longrightarrow> carries r w (acc_handleButtonClick q t v)"
  by (simp add: acc_handleButtonClick.simps Let_def split: option.split)

lemma carries_toggle [simp]:
  "carries r w v \<Longrightarrow> carries r w (world_of (tog_open q v))"
  "carries r w v \<Longrightarrow> carries r w (world_of (tog_close q v))"
  "carries r w v \<Longrightarrow> carries r w (world_of (tog_reset q v))"
  "carries r w v \<Longrightarrow> carries r w (world_of (tog_handleClick q v))"
proof -
  show a: "carries r w v \<Longrightarrow> carries r w (world_of (tog_open q v))"
    by (simp add: tog_open_def Let_def split: option.split)
  show b: "carries r w v \<Longrightarrow> carries r w (world_of (tog_close q v))"
    by (simp add: tog_close_def Let_def split: option.split)
  show "carries r w v \<Longrightarrow> carries r w (world_of (tog_reset q v))"
    by (simp add: tog_reset_def Let_def split: option.split)
  show "carries r w v \<Longrightarrow> carries r w (world_of (tog_handleClick q v))"
    using a b by (simp add: tog_handleClick_def split: option.split)
qed

lemma carries_tog_destroy [simp]: "carries r w v \<Longrightarrow> carries r w (world_of (tog_destroy q v))"
proof -
  assume "carries r w v"
  then have "carries r w (world_of (tog_reset q (set_initialized q False v)))"
    by simp
  then show ?thesis
    by (cases "tog_reset q (set_initialized q False v)")
      (simp_all add: tog_destroy_def Let_def split: option.split)
qed

lemma carries_init_steps [simp]:
  "carries r w v \<Longrightarrow> carries r w (init_onClick q v)"
  "carries r w v \<Longrightarrow> carries r w (init_controls q t v)"
  "carries r w v \<Longrightarrow> carries r w (init_closeOnBlur q v)"
  "carries r w v \<Longrightarrow> carries r w (init_closeOnEscPress q v)"
  "carries r w v \<Longrightarrow> carries r w (init_hidden q t v)"
  "carries r w v \<Longrightarrow> carries r w (init_opened q v)"
  by (simp_all add: init_onClick_def init_controls_def init_closeOnBlur_def
      init_closeOnEscPress_def init_hidden_def init_opened_def randomId_def split_def Let_def
      split: option.split)

lemma carries_tog_init [simp]: "carries r w v \<Longrightarrow> carries r w (snd (tog_init q v))"
  by (simp add: tog_init_def Let_def split: option.split)

lemma carries_tog_onResize [simp]: "carries r w v \<Longrightarrow> carries r w (world_of (tog_onResize q v))"
  by (simp add: tog_onResize_def Let_def split: option.split)

lemma carries_on_click [simp]: "carries r w v \<Longrightarrow> carries r w (on_click n l v)"
  by (cases l) simp_all

lemma carries_click [simp]: "carries r w v \<Longrightarrow> carries r w (click n v)"
  unfolding click_def by (erule carries_foldl [rotated]) simp

lemma carries_acc_handleKeydown [simp]:
  "carries r w v \<Longrightarrow> carries r w (fst (acc_handleKeydown q c v))"
  by (simp add: acc_handleKeydown_def acc_focusPreviousTab_def acc_focusNextTab_def
      acc_focusFirstTab_def acc_focusLastTab_def Let_def split: option.split)

lemma carries_esc_closure [simp]: "carries r w v \<Longrightarrow> carries r w (esc_closure n e p v)"
  by (simp add: esc_closure_def split: option.split)

lemma carries_on_keydown [simp]:
  "carries r w (fst s) \<Longrightarrow> carries r w (fst (on_keydown e l s))"
  by (cases s; cases l) (simp_all add: split_def Let_def)

lemma carries_keydown_fold:
  "carries r w (fst s) \<Longrightarrow> carries r w (fst (foldl (\<lambda>s l. on_keydown e l s) s ls))"
  by (induction ls arbitrary: s) simp_all

lemma carries_keydown [simp]: "carries r w v \<Longrightarrow> carries r w (fst (keydown e v))"
  unfolding keydown_def by (intro carries_keydown_fold) simp

lemma carries_on_resize [simp]: "carries r w v \<Longrightarrow> carries r w (on_resize h v)"
  by (cases h) simp_all

lemma carries_resize [simp]: "carries r w v \<Longrightarrow> carries r w (resize x v)"
  unfolding resize_def by (rule carries_foldl [rotated]) simp_all

lemma carries_run_task [simp]: "carries r w v \<Longrightarrow> carries r w (run_task k v)"
  by (cases k) simp_all

text \<open>Every action but the passing of time carries the state over.\<close>

lemma carries_act: "a \<noteq> Wait \<Longrightarrow> carries r w (act a w)"
  by (cases a) simp_all


text \<open>A millisecond passes: the clock advances, and what is not yet due stays queued.\<close>

lemma tick_carries:
  "carries r (w\<lparr>now := Suc (now w), timers := filter (\<lambda>p. \<not> fst p \<le> Suc (now w)) (timers w)\<rparr>) (tick w)"
  unfolding tick_def Let_def by (rule carries_foldl [rotated]) simp_all

lemma tick_before_due:
  assumes "(d, k) \<in> set (timers w)" "Suc (now w) < d"
  shows "(d, k) \<in> set (timers (tick w))" "now (tick w) = Suc (now w)"
    "tg_element (togs (tick w) r) = tg_element (togs w r)"
    "target (togs (tick w) r) = target (togs w r)"
  using tick_carries [of r w] assms by (auto simp add: carries_def)

lemma run_Cons: "run (a # as) w = run as (act a w)"
  by (simp add: run_def)

lemma elapsed_other: "a \<noteq> Wait \<Longrightarrow> elapsed (a # as) = elapsed as"
  by (cases a) simp_all

lemma elapsed_idle: "elapsed (idle n) = n"
  unfolding idle_def by (induction n) simp_all

lemma run_before_due:
  assumes "(d, k) \<in> set (timers w)" "now w + elapsed as < d"
  shows "(d, k) \<in> set (timers (run as w)) \<and> now (run as w) = now w + elapsed as \<and>
         tg_element (togs (run as w) r) = tg_element (togs w r) \<and>
         target (togs (run as w) r) = target (togs w r)"
  using assms
proof (induction as arbitrary: w)
  case Nil
  then show ?case by (simp add: run_def)
next
  case (Cons a as)
  show ?case
  proof (cases "a = Wait")
    case True
    with Cons.prems have due: "Suc (now w) < d" by simp
    note t = tick_before_due [OF Cons.prems(1) due]
    from Cons.prems(2) True t(2) have "now (tick w) + elapsed as < d" by simp
    from Cons.IH [OF t(1) this] t True show ?thesis
      by (simp add: run_Cons)
  next
    case False
    from carries_act [OF False, of r w]
    have c: "now (act a w) = now w" "tg_element (togs (act a w) r) = tg_element (togs w r)"
      "target (togs (act a w) r) = target (togs w r)" "(d, k) \<in> set (timers (act a w))"
      using Cons.prems(1) by (auto simp add: carries_def)
    from Cons.prems(2) False c(1) have "now (act a w) + elapsed as < d"
      by (simp add: elapsed_other)
    from Cons.IH [OF c(4) this] c False show ?thesis
      by (simp add: run_Cons elapsed_other)
  qed
qed

text \<open>
  The callback of \<^verbatim>\<open>handleBlur\<close> writes the two attributes whatever their values are, and
  no other queued callback writes them differently.
\<close>

lemma blur_timeout_closes:
  assumes "tg_element (togs v r) = el" "target (togs v r) = Some t"
  shows "aria_hidden (elem (run_task (BlurClose r) v) t) = Some ''true'' \<and>
         aria_expanded (elem (run_task (BlurClose r) v) el) = Some ''false''"
  using assms by (simp add: blur_timeout_def)

lemma run_task_keeps_closed:
  assumes "aria_hidden (elem v t) = Some ''true'' \<and> aria_expanded (elem v el) = Some ''false''"
  shows "aria_hidden (elem (run_task k v) t) = Some ''true'' \<and>
         aria_expanded (elem (run_task k v) el) = Some ''false''"
  using assms by (cases k) (auto simp add: blur_timeout_def split: option.split)

lemma run_tasks_keep_closed:
  assumes "aria_hidden (elem v t) = Some ''true'' \<and> aria_expanded (elem v el) = Some ''false''"
  shows "aria_hidden (elem (foldl (\<lambda>v p. run_task (snd p) v) v due) t) = Some ''true'' \<and>
         aria_expanded (elem (foldl (\<lambda>v p. run_task (snd p) v) v due) el) = Some ''false''"
  using assms
proof (induction due arbitrary: v)
  case Nil
  then show ?case by simp
next
  case (Cons p ps)
  from Cons.IH [OF run_task_keeps_closed [OF Cons.prems, of "snd p"]] show ?case
    by simp
qed

lemma due_tasks_close:
  assumes "(d, BlurClose r) \<in> set due" "tg_element (togs v r) = el" "target (togs v r) = Some t"
  shows "aria_hidden (elem (foldl (\<lambda>v p. run_task (snd p) v) v due) t) = Some ''true'' \<and>
         aria_expanded (elem (foldl (\<lambda>v p. run_task (snd p) v) v due) el) = Some ''false''"
  using assms
proof (induction due arbitrary: v)
  case Nil
  then show ?case by simp
next
  case (Cons p ps)
  show ?case
  proof (cases "p = (d, BlurClose r)")
    case True
    from run_tasks_keep_closed [OF blur_timeout_closes [OF Cons.prems(2,3)], of ps] True
    show ?thesis by simp
  next
    case False
    with Cons.prems(1) have rest: "(d, BlurClose r) \<in> set ps" by simp
    have "carries r v (run_task (snd p) v)"
      by simp
    with Cons.prems(2,3)
    have "tg_element (togs (run_task (snd p) v) r) = el" "target (togs (run_task (snd p) v) r) = Some t"
      by (simp_all add: carries_def)
    from Cons.IH [OF rest this] show ?thesis
      by simp
  qed
qed

lemma tick_closes:
  assumes "(d, BlurClose r) \<in> set (timers w)" "d \<le> Suc (now w)"
    and "tg_element (togs w r) = el" "target (togs w r) = Some t"
  shows "aria_hidden (elem (tick w) t) = Some ''true'' \<and>
         aria_expanded (elem (tick w) el) = Some ''false''"
  unfolding tick_def Let_def using assms by (intro due_tasks_close [of d r]) simp_all

text \<open>A blur event on an element that carries \<^verbatim>\<open>handleBlur\<close> queues the callback for 200 ms later.\<close>

lemma blur_listeners_queue:
  assumes "TogHandleBlur r \<in> set ls"
  shows "(now v + 200, BlurClose r) \<in> set (timers (foldl (\<lambda>v l. on_focus_blur l v) v ls))"
  using assms
proof (induction ls arbitrary: v)
  case Nil
  then show ?case by simp
next
  case (Cons l ls)
  show ?case
  proof (cases "l = TogHandleBlur r")
    case True
    have "carries r (tog_handleBlur r v) (foldl (\<lambda>v l. on_focus_blur l v) (tog_handleBlur r v) ls)"
      by (rule carries_foldl [rotated]) simp_all
    then show ?thesis
      using True by (auto simp add: carries_def tog_handleBlur_def)
  next
    case False
    with Cons.prems have "TogHandleBlur r \<in> set ls" by simp
    from Cons.IH [OF this, of "on_focus_blur l v"] show ?thesis
      by simp
  qed
qed

lemma fire_blur_queues:
  assumes "(''blur'', TogHandleBlur r) \<in> set (listeners (elem w el))"
  shows "(now w + 200, BlurClose r) \<in> set (timers (fire ''blur'' el w))"
proof -
  from assms have "TogHandleBlur r \<in> set (listeners_for ''blur'' el w)"
    by (force simp add: listeners_for_def)
  then show ?thesis
    unfolding fire_def by (rule blur_listeners_queue)
qed

text \<open>\<^verbatim>\<open>init()\<close> attaches \<^verbatim>\<open>handleBlur\<close> when \<^verbatim>\<open>closeOnBlur\<close> is on and the toggle has a target.\<close>

lemma init_attaches_handleBlur:
  assumes "closeOnBlur (settings (togs w r))" "target (togs w r) = Some t"
  shows "(''blur'', TogHandleBlur r) \<in> set (listeners (elem (snd (tog_init r w)) (tg_element (togs w r))))"
proof -
  define v where "v = init_controls r t (init_onClick r
    (upd_listeners (tg_element (togs w r)) (addEventListener (''click'', TogHandleClick r))
      (set_initialized r True w)))"
  have v: "togs v = (togs w)(r := (togs w r)\<lparr>initialized := True\<rparr>)"
    by (simp add: v_def set_initialized_def)
  have init: "snd (tog_init r w) =
      init_opened r (init_hidden r t (init_closeOnEscPress r (init_closeOnBlur r v)))"
    using assms(2) by (simp add: tog_init_def Let_def v_def set_initialized_def)
  have later: "listeners (elem (init_opened r (init_hidden r t (init_closeOnEscPress r u))) n) =
      listeners (elem u n)" for u n
    by (simp add: init_opened_def init_hidden_def tog_open_def Let_def tog_disableBodyScroll_def
        slideDown_def log_call_def upd_def split: option.split)
  have "(''blur'', TogHandleBlur r) \<in> set (listeners (elem (init_closeOnBlur r v) (tg_element (togs w r))))"
    using assms(1) v by (simp add: init_closeOnBlur_def upd_listeners_def addEventListener_def)
  then show ?thesis
    unfolding init later .
qed

text \<open>
  Claim C10: the toggle \<open>r\<close> with the trigger \<open>el\<close> and the target \<open>t\<close> has \<^verbatim>\<open>closeOnBlur\<close>
  enabled, that is, \<^verbatim>\<open>init()\<close> has attached \<^verbatim>\<open>handleBlur\<close> to the trigger.  A blur event
  fires on the trigger.  Then whatever happens during the next 200 milliseconds (calls
  of \<^verbatim>\<open>open()\<close>, \<^verbatim>\<open>close()\<close> or \<^verbatim>\<open>destroy()\<close>, elements taking the focus, clicks, key
  presses, resizes), when the 200th millisecond has passed the target's \<^verbatim>\<open>aria-hidden\<close>
  is \<^verbatim>\<open>true\<close> and the trigger's \<^verbatim>\<open>aria-expanded\<close> is \<^verbatim>\<open>false\<close>: the timeout is never
  cancelled, and its callback writes the attributes without looking at the state.
\<close>

theorem blur_closes_after_200_ms:
  assumes attached: "(''blur'', TogHandleBlur r) \<in> set (listeners (elem w el))"
    and wiring: "tg_element (togs w r) = el" "target (togs w r) = Some t"
    and delay: "elapsed during = 199"
  shows "now (run (during @ [Wait]) (fire ''blur'' el w)) = now w + 200 \<and>
         aria_hidden (elem (run (during @ [Wait]) (fire ''blur'' el w)) t) = Some ''true'' \<and>
         aria_expanded (elem (run (during @ [Wait]) (fire ''blur'' el w)) el) = Some ''false''"
proof -
  let ?blurred = "fire ''blur'' el w"
  let ?v = "run during ?blurred"
  have queued: "(now ?blurred + 200, BlurClose r) \<in> set (timers ?blurred)"
    using fire_blur_queues [OF attached] by simp
  have "now ?blurred + elapsed during < now ?blurred + 200"
    using delay by simp
  from run_before_due [OF queued this, of r] wiring delay
  have v: "(now w + 200, BlurClose r) \<in> set (timers ?v)" "now ?v = now w + 199"
    "tg_element (togs ?v r) = el" "target (togs ?v r) = Some t"
    by simp_all
  have last: "run (during @ [Wait]) ?blurred = tick ?v"
    by (simp add: run_def)
  have "now (tick ?v) = Suc (now ?v)"
    using tick_carries [of r ?v] by (simp add: carries_def)
  moreover from v have "now w + 200 \<le> Suc (now ?v)"
    by simp
  note tick_closes [OF v(1) this v(3,4)]
  ultimately show ?thesis
    unfolding last using v(2) by simp
qed

theorem blur_closes_after_200_ms_witness:
  "closeOnBlur (settings (togs menu_ready 0)) \<and>
   (''blur'', TogHandleBlur 0) \<in> set (listeners (elem menu_ready 1)) \<and>
   tg_element (togs menu_ready 0) = 1 \<and>
   target (togs menu_ready 0) = Some 2 \<and>
   now menu_ready = 0 \<and>
   elapsed (CallOpen 0 # FocusOn 3 # idle 199) = 199 \<and>
   aria_hidden (elem (run [CallOpen 0, FocusOn 3] (fire ''blur'' 1 menu_ready)) 2) = Some ''false'' \<and>
   aria_expanded (elem (run [CallOpen 0, FocusOn 3] (fire ''blur'' 1 menu_ready)) 1) = Some ''true'' \<and>
   now (run ((CallOpen 0 # FocusOn 3 # idle 199) @ [Wait]) (fire ''blur'' 1 menu_ready)) = 200 \<and>
   aria_hidden (elem (run ((CallOpen 0 # FocusOn 3 # idle 199) @ [Wait]) (fire ''blur'' 1 menu_ready)) 2)
     = Some ''true'' \<and>
   aria_expanded (elem (run ((CallOpen 0 # FocusOn 3 # idle 199) @ [Wait]) (fire ''blur'' 1 menu_ready)) 1)
     = Some ''false''"
proof -
  have toggle: "(''blur'', TogHandleBlur 0) \<in> set (listeners (elem menu_ready 1))"
    "tg_element (togs menu_ready 0) = 1" "target (togs menu_ready 0) = Some 2"
    and enabled: "closeOnBlur (settings (togs menu_ready 0))"
    and clock: "now menu_ready = 0"
    by (simp_all add: menu_ready_def menu_page_def menu_settings_def page_defs)
  have delay: "elapsed (CallOpen 0 # FocusOn 3 # idle 199) = 199"
    by (simp add: elapsed_idle)
  have opened:
    "aria_hidden (elem (run [CallOpen 0, FocusOn 3] (fire ''blur'' 1 menu_ready)) 2) = Some ''false''"
    "aria_expanded (elem (run [CallOpen 0, FocusOn 3] (fire ''blur'' 1 menu_ready)) 1) = Some ''true''"
    by (simp_all add: run_def tog_open_def Let_def menu_ready_def menu_page_def menu_settings_def
        page_defs)
  from blur_closes_after_200_ms [OF toggle delay] toggle enabled clock delay opened
  show ?thesis
    by simp
qed


end
